theory Spec2Isabelle
  imports Complex_Main "HOL-Library.Product_Lexorder"
begin

text \<open>
  A model of \<open>NFLDataTransformer\<close> in \<open>nfl-data-pipeline/src/etl/transform.py\<close>: the
  two cleaners, the feature engine and the team aggregator, in the order the pipeline
  calls them.
\<close>

section \<open>Tables\<close>

text \<open>
  The two cleaners and the feature engine work on pandas data frames whose columns are
  looked up by name. A cell is missing (NaN, None or NaT), a number, a text, a calendar
  date (its proleptic Gregorian ordinal, as \<open>date.toordinal()\<close> gives it) or a truth
  value. A row lists its cells with their column labels, in column order; a frame is its
  column labels and its rows. A frame without rows still has its columns.

  pandas allows a frame to hold several columns under one label, and the renaming of the
  cleaners produces such a frame from a raw table that holds an upstream column name
  beside the canonical name it is renamed to (\<open>Name\<close> and \<open>name\<close>, say). For a
  repeated label \<open>df[c]\<close> is a frame and not a column, and the conversions the
  cleaners apply to a column raise on it; \<open>clean_teams_data_raises\<close> and
  \<open>clean_games_data_raises\<close> below say when. The raw tables themselves have pairwise
  distinct labels and rows labelled by the columns (\<open>wf_frame\<close>): they are read from
  JSON records or CSV files. Numbers are finite: the floats \<open>inf\<close> and \<open>-inf\<close> are
  not modelled.
\<close>

datatype cell = Null | Num real | Str string | Day int | Bool bool

type_synonym row = "(string \<times> cell) list"

record frame =
  columns :: "string list"
  records :: "row list"

definition wf_frame :: "frame \<Rightarrow> bool" where
  "wf_frame df \<longleftrightarrow>
     distinct (columns df) \<and> list_all (\<lambda>r. map fst r = columns df) (records df)"

text \<open>\<open>pd.DataFrame()\<close> and \<open>df.empty\<close> (no rows or no columns).\<close>

definition empty_frame :: frame where
  "empty_frame = \<lparr>columns = [], records = []\<rparr>"

definition df_empty :: "frame \<Rightarrow> bool" where
  "df_empty df \<longleftrightarrow> records df = [] \<or> columns df = []"

text \<open>
  The cell of a row under a label; the callers check that the label is a column. Under a
  repeated label pandas has no single column to read: \<open>cell_at\<close> takes the first, and
  \<open>set_cell\<close> below writes all of them. The cleaners read or write the cells of a
  repeated label only in calls that raise.
\<close>

definition cell_at :: "row \<Rightarrow> string \<Rightarrow> cell" where
  "cell_at r c = (case map_of r c of None \<Rightarrow> Null | Some v \<Rightarrow> v)"

text \<open>
  \<open>df[c] = values\<close>: the column is overwritten in place when the frame has it and is
  appended as the last column otherwise. The new cell is computed from the row.
\<close>

definition set_cell :: "string \<Rightarrow> cell \<Rightarrow> row \<Rightarrow> row" where
  "set_cell c v r =
     (if c \<in> set (map fst r) then map (\<lambda>(k, x). if k = c then (k, v) else (k, x)) r
      else r @ [(c, v)])"

definition assign :: "string \<Rightarrow> (row \<Rightarrow> cell) \<Rightarrow> frame \<Rightarrow> frame" where
  "assign c f df =
     \<lparr>columns = (if c \<in> set (columns df) then columns df else columns df @ [c]),
      records = map (\<lambda>r. set_cell c (f r) r) (records df)\<rparr>"

text \<open>\<open>df[c] = g(df[c])\<close> for an element-wise \<open>g\<close>.\<close>

definition apply_col :: "string \<Rightarrow> (cell \<Rightarrow> cell) \<Rightarrow> frame \<Rightarrow> frame" where
  "apply_col c g df = assign c (\<lambda>r. g (cell_at r c)) df"

text \<open>\<open>df[mask]\<close> with a boolean mask computed row by row.\<close>

definition select_rows :: "(row \<Rightarrow> bool) \<Rightarrow> frame \<Rightarrow> frame" where
  "select_rows keep df = df\<lparr>records := filter keep (records df)\<rparr>"

text \<open>
  \<open>df.rename(columns=rename_map)\<close>, where \<open>rename_map\<close> holds the entries of the
  mapping whose old name is a column of the frame. The renaming does not look at the
  other labels: a column renamed to a label that the frame already has stands beside
  that column, and the label is repeated.
\<close>

definition rename_label :: "(string \<times> string) list \<Rightarrow> string \<Rightarrow> string" where
  "rename_label rename_map c = (case map_of rename_map c of None \<Rightarrow> c | Some c' \<Rightarrow> c')"

definition rename_columns :: "(string \<times> string) list \<Rightarrow> frame \<Rightarrow> frame" where
  "rename_columns column_mapping df =
     (let rename_map = filter (\<lambda>(old_col, new_col). old_col \<in> set (columns df)) column_mapping
      in \<lparr>columns = map (rename_label rename_map) (columns df),
          records = map (map (\<lambda>(k, x). (rename_label rename_map k, x))) (records df)\<rparr>)"

text \<open>
  \<open>df.drop_duplicates(subset=[c])\<close> keeps the first row of every value of the column
  (\<open>keep='first'\<close>), in table order. Missing values count as equal to each other, and
  Python's \<open>True\<close> and \<open>False\<close> are equal to 1 and 0. pandas compares the cells of
  every column that carries the label, so under a repeated label two rows are duplicates
  when they agree in all of these columns.
\<close>

definition dup_key :: "cell \<Rightarrow> cell" where
  "dup_key v = (case v of Bool b \<Rightarrow> Num (if b then 1 else 0) | _ \<Rightarrow> v)"

definition cells_at :: "row \<Rightarrow> string \<Rightarrow> cell list" where
  "cells_at r c = map snd (filter (\<lambda>(k, x). k = c) r)"

fun keep_first :: "('a \<Rightarrow> 'k) \<Rightarrow> 'k list \<Rightarrow> 'a list \<Rightarrow> 'a list" where
  "keep_first key seen [] = []"
| "keep_first key seen (r # rs) =
     (if key r \<in> set seen then keep_first key seen rs
      else r # keep_first key (key r # seen) rs)"

definition drop_duplicates :: "string \<Rightarrow> frame \<Rightarrow> frame" where
  "drop_duplicates c df =
     df\<lparr>records := keep_first (\<lambda>r. map dup_key (cells_at r c)) [] (records df)\<rparr>"

text \<open>\<open>df.dropna(subset=[c])\<close> and \<open>Series.fillna(v)\<close>.\<close>

definition dropna :: "string \<Rightarrow> frame \<Rightarrow> frame" where
  "dropna c df = select_rows (\<lambda>r. cell_at r c \<noteq> Null) df"

definition fillna :: "cell \<Rightarrow> cell \<Rightarrow> cell" where
  "fillna v x = (if x = Null then v else x)"

subsection \<open>Conversions\<close>

text \<open>
  What pandas makes of a text or a number is library code outside the repository: which
  strings \<open>pd.to_numeric\<close> and \<open>pd.to_datetime\<close> can parse and to what, how a number
  or a date prints, and the year and month of a date. The model takes these functions
  as a parameter.
\<close>

record pandas =
  str_to_num :: "string \<Rightarrow> real option"
  str_to_date :: "string \<Rightarrow> int option"
  num_to_date :: "real \<Rightarrow> int option"
  num_to_str :: "real \<Rightarrow> string"
  date_to_str :: "int \<Rightarrow> string"
  year_of :: "int \<Rightarrow> int"
  month_of :: "int \<Rightarrow> int"

text \<open>
  \<open>pd.to_numeric(s, errors='coerce')\<close>: a number stays, a truth value becomes 1 or 0, a
  text becomes the number it parses to, and everything that cannot be parsed becomes NaN.
\<close>

definition to_numeric :: "pandas \<Rightarrow> cell \<Rightarrow> cell" where
  "to_numeric lib v =
     (case v of
        Null \<Rightarrow> Null
      | Num x \<Rightarrow> Num x
      | Str s \<Rightarrow> (case str_to_num lib s of None \<Rightarrow> Null | Some x \<Rightarrow> Num x)
      | Day d \<Rightarrow> Null
      | Bool b \<Rightarrow> Num (if b then 1 else 0))"

text \<open>
  \<open>pd.to_datetime(s, errors='coerce')\<close> followed, after the rows without a date are
  dropped, by \<open>.dt.date\<close>: the calendar date of the parsed time stamp, NaT for what cannot
  be parsed.
\<close>

definition to_datetime :: "pandas \<Rightarrow> cell \<Rightarrow> cell" where
  "to_datetime lib v =
     (case v of
        Null \<Rightarrow> Null
      | Num x \<Rightarrow> (case num_to_date lib x of None \<Rightarrow> Null | Some d \<Rightarrow> Day d)
      | Str s \<Rightarrow> (case str_to_date lib s of None \<Rightarrow> Null | Some d \<Rightarrow> Day d)
      | Day d \<Rightarrow> Day d
      | Bool b \<Rightarrow> Null)"

text \<open>\<open>astype(str)\<close>; a missing value prints as \<open>nan\<close>.\<close>

definition astype_str :: "pandas \<Rightarrow> cell \<Rightarrow> string" where
  "astype_str lib v =
     (case v of
        Null \<Rightarrow> ''nan''
      | Num x \<Rightarrow> num_to_str lib x
      | Str s \<Rightarrow> s
      | Day d \<Rightarrow> date_to_str lib d
      | Bool b \<Rightarrow> (if b then ''True'' else ''False''))"

text \<open>
  \<open>str.strip()\<close> removes white space at both ends. Strings are byte strings here, and
  the white space is that of ASCII.
\<close>

definition is_space :: "char \<Rightarrow> bool" where
  "is_space c \<longleftrightarrow>
     c \<in> set [CHR '' '', CHR 0x09, CHR 0x0A, CHR 0x0B, CHR 0x0C, CHR 0x0D,
              CHR 0x1C, CHR 0x1D, CHR 0x1E, CHR 0x1F]"

definition str_strip :: "string \<Rightarrow> string" where
  "str_strip s = rev (dropWhile is_space (rev (dropWhile is_space s)))"

text \<open>
  \<open>astype(int)\<close> on a float column without NaN truncates towards zero. (It raises for
  an infinite float, which the model does not have.)
\<close>

definition astype_int :: "cell \<Rightarrow> cell" where
  "astype_int v =
     (case v of Num x \<Rightarrow> Num (of_int (if x < 0 then \<lceil>x\<rceil> else \<lfloor>x\<rfloor>)) | _ \<Rightarrow> v)"

text \<open>Comparisons of float columns: a comparison with NaN is false.\<close>

definition num_eq :: "cell \<Rightarrow> cell \<Rightarrow> bool" where
  "num_eq a b = (case (a, b) of (Num x, Num y) \<Rightarrow> x = y | _ \<Rightarrow> False)"

definition num_less :: "cell \<Rightarrow> cell \<Rightarrow> bool" where
  "num_less a b = (case (a, b) of (Num x, Num y) \<Rightarrow> x < y | _ \<Rightarrow> False)"

subsection \<open>Errors\<close>

text \<open>
  The exceptions of the functions, as values. A label is repeated in a frame when more
  than one column carries it.
\<close>

datatype error = KeyError string | TypeError | ValueError | AttributeError

definition repeated :: "string \<Rightarrow> frame \<Rightarrow> bool" where
  "repeated c df \<longleftrightarrow> 1 < count_list (columns df) c"

section \<open>The entity cleaner: \<open>clean_teams_data\<close>\<close>

definition team_column_mapping :: "(string \<times> string) list" where
  "team_column_mapping =
     [(''TeamID'', ''team_id''), (''Name'', ''name''), (''City'', ''city''),
      (''Key'', ''abbreviation''), (''Conference'', ''conference''),
      (''Division'', ''division''), (''PrimaryColor'', ''primary_color''),
      (''SecondaryColor'', ''secondary_color''), (''WikipediaLogoUrl'', ''logo_url''),
      (''Founded'', ''founded_year''), (''HeadCoach'', ''head_coach'')]"

text \<open>
  \<open>for col in id_columns: if col in teams_df.columns: id_column = col; break\<close>, then
  \<open>if id_column: teams_df = teams_df.drop_duplicates(subset=[id_column])\<close>. Without an
  identifier column the table goes on as it is.
\<close>

definition id_columns :: "string list" where
  "id_columns = [''TeamID'', ''team_id'', ''Key'']"

definition dedup_teams :: "frame \<Rightarrow> frame" where
  "dedup_teams teams_df =
     (case find (\<lambda>col. col \<in> set (columns teams_df)) id_columns of
        None \<Rightarrow> teams_df
      | Some id_column \<Rightarrow> drop_duplicates id_column teams_df)"

text \<open>\<open>if col in teams_df.columns: teams_df[col] = teams_df[col].fillna('Unknown')\<close>.\<close>

definition fill_unknown :: "string \<Rightarrow> frame \<Rightarrow> frame" where
  "fill_unknown col df =
     (if col \<in> set (columns df) then apply_col col (fillna (Str ''Unknown'')) df else df)"

text \<open>\<open>if col in teams_df.columns: teams_df[col] = teams_df[col].astype(str).str.strip()\<close>.\<close>

definition strip_text :: "pandas \<Rightarrow> string \<Rightarrow> frame \<Rightarrow> frame" where
  "strip_text lib col df =
     (if col \<in> set (columns df)
      then apply_col col (\<lambda>v. Str (str_strip (astype_str lib v))) df else df)"

text \<open>
  The conference check: the cells outside \<open>['AFC', 'NFC', 'Unknown']\<close> are overwritten
  with \<open>'Unknown'\<close> when there is one.
\<close>

definition validate_conference :: "frame \<Rightarrow> frame" where
  "validate_conference df =
     (if ''conference'' \<in> set (columns df) then
        let invalid_conferences =
              (\<lambda>r. cell_at r ''conference'' \<notin> set [Str ''AFC'', Str ''NFC'', Str ''Unknown''])
        in if list_ex invalid_conferences (records df)
           then assign ''conference''
                  (\<lambda>r. if invalid_conferences r then Str ''Unknown''
                       else cell_at r ''conference'') df
           else df
      else df)"

text \<open>
  \<open>pd.to_numeric(teams_df['team_id'], errors='coerce')\<close>, \<open>dropna(subset=['team_id'])\<close>,
  \<open>astype(int)\<close>.
\<close>

definition coerce_team_id :: "pandas \<Rightarrow> frame \<Rightarrow> frame" where
  "coerce_team_id lib df =
     (if ''team_id'' \<in> set (columns df)
      then apply_col ''team_id'' astype_int
             (dropna ''team_id'' (apply_col ''team_id'' (to_numeric lib) df))
      else df)"

text \<open>
  The body of the function, step by step: the table it returns when no step raises.
\<close>

definition clean_teams_data :: "pandas \<Rightarrow> frame \<Rightarrow> frame" where
  "clean_teams_data lib teams_df =
     (if df_empty teams_df then empty_frame
      else
        let teams_df = dedup_teams teams_df;
            teams_df = rename_columns team_column_mapping teams_df;
            teams_df = fold fill_unknown [''city'', ''conference'', ''division''] teams_df;
            teams_df = fold (strip_text lib)
                         [''name'', ''city'', ''abbreviation'', ''conference'', ''division'']
                         teams_df;
            teams_df = validate_conference teams_df;
            teams_df = coerce_team_id lib teams_df
        in teams_df)"

text \<open>
  The steps that raise. After the renaming a text column whose label is repeated makes
  \<open>teams_df[col].astype(str)\<close> a frame, which has no \<open>.str\<close>: line 109 raises
  \<open>AttributeError\<close>. (The fills of lines 99 to 103 come first and do not raise: they
  assign a frame to the repeated label.) When only \<open>team_id\<close> is repeated,
  \<open>pd.to_numeric\<close> of line 121 gets a frame and raises \<open>TypeError\<close>. A repeated label
  that no step reads (\<open>primary_color\<close>, say) raises nothing and stays repeated in the
  result.
\<close>

definition clean_teams_data_raises :: "frame \<Rightarrow> error option" where
  "clean_teams_data_raises teams_df =
     (if df_empty teams_df then None
      else
        let teams_df = rename_columns team_column_mapping (dedup_teams teams_df)
        in if list_ex (\<lambda>col. repeated col teams_df)
                [''name'', ''city'', ''abbreviation'', ''conference'', ''division'']
           then Some AttributeError
           else if repeated ''team_id'' teams_df then Some TypeError
           else None)"

text \<open>A call of the function: the exception it raises, or the table it returns.\<close>

definition call_clean_teams_data :: "pandas \<Rightarrow> frame \<Rightarrow> error + frame" where
  "call_clean_teams_data lib teams_df =
     (case clean_teams_data_raises teams_df of
        Some e \<Rightarrow> Inl e
      | None \<Rightarrow> Inr (clean_teams_data lib teams_df))"

section \<open>The event cleaner: \<open>clean_games_data\<close>\<close>

definition game_column_mapping :: "(string \<times> string) list" where
  "game_column_mapping =
     [(''GameID'', ''game_id''), (''Season'', ''season''), (''SeasonType'', ''season_type''),
      (''Week'', ''week''), (''Date'', ''date''), (''DateTime'', ''datetime''),
      (''HomeTeamID'', ''home_team_id''), (''AwayTeamID'', ''away_team_id''),
      (''HomeScore'', ''home_score''), (''AwayScore'', ''away_score''),
      (''Status'', ''status''), (''Quarter'', ''quarter''),
      (''TimeRemainingMinutes'', ''time_remaining''),
      (''Temperature'', ''weather_temperature''), (''WindSpeed'', ''wind_speed'')]"

definition dedup_games :: "frame \<Rightarrow> frame" where
  "dedup_games df =
     (if ''game_id'' \<in> set (columns df) then drop_duplicates ''game_id'' df else df)"

text \<open>\<open>games_df[col] = pd.to_numeric(games_df[col], errors='coerce').fillna(0)\<close>.\<close>

definition coerce_score :: "pandas \<Rightarrow> string \<Rightarrow> frame \<Rightarrow> frame" where
  "coerce_score lib col df =
     (if col \<in> set (columns df)
      then apply_col col (\<lambda>v. fillna (Num 0) (to_numeric lib v)) df else df)"

text \<open>
  The date column: parsed with \<open>errors='coerce'\<close>, the rows without a date dropped, the
  time of day removed.
\<close>

definition clean_date :: "pandas \<Rightarrow> frame \<Rightarrow> frame" where
  "clean_date lib df =
     (if ''date'' \<in> set (columns df)
      then dropna ''date'' (apply_col ''date'' (to_datetime lib) df) else df)"

text \<open>\<open>games_df[col] = pd.to_numeric(games_df[col], errors='coerce')\<close>.\<close>

definition coerce_numeric :: "pandas \<Rightarrow> string \<Rightarrow> frame \<Rightarrow> frame" where
  "coerce_numeric lib col df =
     (if col \<in> set (columns df) then apply_col col (to_numeric lib) df else df)"

text \<open>
  Lines 140 to 190, the table as the business rules receive it: columns renamed,
  duplicates of \<open>game_id\<close> removed, scores, date and numeric columns coerced.
\<close>

definition standardize_games :: "pandas \<Rightarrow> frame \<Rightarrow> frame" where
  "standardize_games lib games_df =
     (let games_df = rename_columns game_column_mapping games_df;
          games_df = dedup_games games_df;
          games_df = fold (coerce_score lib) [''home_score'', ''away_score''] games_df;
          games_df = clean_date lib games_df;
          games_df = fold (coerce_numeric lib)
                       [''season'', ''week'', ''home_team_id'', ''away_team_id''] games_df
      in games_df)"

text \<open>The two business rules. Each removes rows only when its mask marks one.\<close>

definition drop_self_play :: "frame \<Rightarrow> frame" where
  "drop_self_play df =
     (if ''home_team_id'' \<in> set (columns df) \<and> ''away_team_id'' \<in> set (columns df) then
        let same_team_games =
              (\<lambda>r. num_eq (cell_at r ''home_team_id'') (cell_at r ''away_team_id''))
        in if list_ex same_team_games (records df)
           then select_rows (\<lambda>r. \<not> same_team_games r) df else df
      else df)"

definition drop_invalid_weeks :: "frame \<Rightarrow> frame" where
  "drop_invalid_weeks df =
     (if ''week'' \<in> set (columns df) then
        let invalid_weeks =
              (\<lambda>r. num_less (cell_at r ''week'') (Num 1) \<or> num_less (Num 22) (cell_at r ''week''))
        in if list_ex invalid_weeks (records df)
           then select_rows (\<lambda>r. \<not> invalid_weeks r) df else df
      else df)"

text \<open>
  The body of the function, step by step: the table it returns when no step raises.
\<close>

definition clean_games_data :: "pandas \<Rightarrow> frame \<Rightarrow> frame" where
  "clean_games_data lib games_df =
     (if df_empty games_df then empty_frame
      else
        let games_df = standardize_games lib games_df;
            games_df = drop_self_play games_df;
            games_df = drop_invalid_weeks games_df
        in games_df)"

text \<open>
  The steps that raise. After the renaming a repeated score label makes
  \<open>pd.to_numeric\<close> of line 176 raise \<open>TypeError\<close>, a repeated \<open>date\<close> makes
  \<open>pd.to_datetime\<close> of line 180 raise \<open>ValueError\<close>, and a repeated label among the
  four numeric columns makes \<open>pd.to_numeric\<close> of line 190 raise \<open>TypeError\<close>. The
  deduplication does not raise on a repeated \<open>game_id\<close>, and the two business rules read
  columns that line 190 has left unrepeated.
\<close>

definition clean_games_data_raises :: "frame \<Rightarrow> error option" where
  "clean_games_data_raises games_df =
     (if df_empty games_df then None
      else
        let games_df = rename_columns game_column_mapping games_df
        in if list_ex (\<lambda>col. repeated col games_df) [''home_score'', ''away_score'']
           then Some TypeError
           else if repeated ''date'' games_df then Some ValueError
           else if list_ex (\<lambda>col. repeated col games_df)
                     [''season'', ''week'', ''home_team_id'', ''away_team_id'']
           then Some TypeError
           else None)"

text \<open>A call of the function: the exception it raises, or the table it returns.\<close>

definition call_clean_games_data :: "pandas \<Rightarrow> frame \<Rightarrow> error + frame" where
  "call_clean_games_data lib games_df =
     (case clean_games_data_raises games_df of
        Some e \<Rightarrow> Inl e
      | None \<Rightarrow> Inr (clean_games_data lib games_df))"

section \<open>The feature engine: \<open>create_game_features\<close>\<close>

text \<open>
  The feature engine can fail: it reads the two team columns without checking that the
  table has them, it subtracts score cells, and it parses the date column without
  \<open>errors='coerce'\<close>. The model returns an error wherever pandas raises one; for cells
  the event cleaner never produces in these columns (a score that is a text, a date or a
  truth value; a date cell that is a number or a truth value) it returns an error as well.
\<close>

definition numeric_cell :: "cell \<Rightarrow> bool" where
  "numeric_cell v = (case v of Null \<Rightarrow> True | Num x \<Rightarrow> True | _ \<Rightarrow> False)"

definition sub_cell :: "cell \<Rightarrow> cell \<Rightarrow> cell" where
  "sub_cell a b = (case (a, b) of (Num x, Num y) \<Rightarrow> Num (x - y) | _ \<Rightarrow> Null)"

definition add_cell :: "cell \<Rightarrow> cell \<Rightarrow> cell" where
  "add_cell a b = (case (a, b) of (Num x, Num y) \<Rightarrow> Num (x + y) | _ \<Rightarrow> Null)"

definition abs_cell :: "cell \<Rightarrow> cell" where
  "abs_cell a = (case a of Num x \<Rightarrow> Num \<bar>x\<bar> | _ \<Rightarrow> Null)"

text \<open>
  \<open>pd.cut(x, bins, labels=labels, include_lowest=True)\<close> with the default \<open>right=True\<close>.
  pandas computes \<open>ids = bins.searchsorted(x, side='left')\<close>, the number of bin edges
  below \<open>x\<close> in the ascending edge list, sets \<open>ids\<close> to 1 where \<open>x == bins[0]\<close>, and
  gives the label \<open>labels[ids - 1]\<close>, or NaN where \<open>ids\<close> is 0 or \<open>len(bins)\<close> or \<open>x\<close>
  is NaN.
\<close>

datatype edge = At real | PosInf

fun edge_below :: "edge \<Rightarrow> real \<Rightarrow> bool" where
  "edge_below (At b) x = (b < x)"
| "edge_below PosInf x = False"

definition searchsorted_left :: "edge list \<Rightarrow> real \<Rightarrow> nat" where
  "searchsorted_left bins x = length (takeWhile (\<lambda>b. edge_below b x) bins)"

definition pd_cut :: "edge list \<Rightarrow> string list \<Rightarrow> cell \<Rightarrow> cell" where
  "pd_cut bins labels v =
     (case v of
        Num x \<Rightarrow>
          (let ids = (if bins \<noteq> [] \<and> hd bins = At x then 1 else searchsorted_left bins x)
           in if ids = length bins \<or> ids = 0 then Null else Str (labels ! (ids - 1)))
      | _ \<Rightarrow> Null)"

definition closeness_labels :: "string list" where
  "closeness_labels = [''Very Close (1-3)'', ''Close (4-7)'', ''Moderate (8-14)'', ''Blowout (15+)'']"

text \<open>The first label ends in the UTF-8 bytes of the less-or-equal sign and \<open>35)\<close>.\<close>

definition scoring_labels :: "string list" where
  "scoring_labels =
     [''Low Scoring ('' @ [CHR 0xE2, CHR 0x89, CHR 0xA4] @ ''35)'',
      ''Average (36-45)'', ''High (46-55)'', ''Very High (56+)'']"

text \<open>
  Lines 222 to 245: the point differential, the winner, the margin and its category.
  \<open>np.where\<close> reads \<open>games_df['home_team_id']\<close> before \<open>games_df['away_team_id']\<close>.
\<close>

definition score_features :: "frame \<Rightarrow> error + frame" where
  "score_features games_df =
     (if ''home_score'' \<in> set (columns games_df) \<and> ''away_score'' \<in> set (columns games_df) then
        if \<not> list_all (\<lambda>r. numeric_cell (cell_at r ''home_score'')
                           \<and> numeric_cell (cell_at r ''away_score'')) (records games_df)
        then Inl TypeError
        else
          let games_df = assign ''point_differential''
                (\<lambda>r. sub_cell (cell_at r ''home_score'') (cell_at r ''away_score'')) games_df
          in if ''home_team_id'' \<notin> set (columns games_df) then Inl (KeyError ''home_team_id'')
             else if ''away_team_id'' \<notin> set (columns games_df)
             then Inl (KeyError ''away_team_id'')
             else
               let games_df = assign ''winner_team_id''
                     (\<lambda>r. if num_less (cell_at r ''away_score'') (cell_at r ''home_score'')
                          then cell_at r ''home_team_id''
                          else if num_less (cell_at r ''home_score'') (cell_at r ''away_score'')
                          then cell_at r ''away_team_id''
                          else Null) games_df;
                   games_df = assign ''margin_of_victory''
                     (\<lambda>r. abs_cell (cell_at r ''point_differential'')) games_df;
                   games_df = assign ''game_closeness''
                     (\<lambda>r. pd_cut [At 0, At 3, At 7, At 14, PosInf] closeness_labels
                            (cell_at r ''margin_of_victory'')) games_df
               in Inr games_df
      else Inr games_df)"

text \<open>\<open>games_df['is_completed'] = games_df['status'].isin(completed_statuses)\<close>.\<close>

definition completion_flag :: "frame \<Rightarrow> frame" where
  "completion_flag games_df =
     (if ''status'' \<in> set (columns games_df)
      then assign ''is_completed''
             (\<lambda>r. Bool (cell_at r ''status'' \<in> set [Str ''Final'', Str ''F'', Str ''Completed'']))
             games_df
      else games_df)"

text \<open>
  The temporal features. A column of dates or texts has dtype \<open>object\<close> and goes through
  \<open>pd.to_datetime\<close>, which raises on a text it cannot parse. The day of the week of a
  date with ordinal \<open>d\<close> is \<open>(d - 1) mod 7\<close>, Monday being 0. The features of a missing
  date are missing, and its two flags are false.
\<close>

definition day_names :: "string list" where
  "day_names = [''Monday'', ''Tuesday'', ''Wednesday'', ''Thursday'', ''Friday'',
                ''Saturday'', ''Sunday'']"

definition dayofweek :: "cell \<Rightarrow> cell" where
  "dayofweek v = (case v of Day d \<Rightarrow> Num (real_of_int ((d - 1) mod 7)) | _ \<Rightarrow> Null)"

definition date_cell_ok :: "pandas \<Rightarrow> cell \<Rightarrow> bool" where
  "date_cell_ok lib v =
     (case v of Null \<Rightarrow> True | Day d \<Rightarrow> True | Str s \<Rightarrow> str_to_date lib s \<noteq> None
      | _ \<Rightarrow> False)"

definition date_features :: "pandas \<Rightarrow> frame \<Rightarrow> error + frame" where
  "date_features lib games_df =
     (if ''date'' \<in> set (columns games_df) then
        if \<not> list_all (\<lambda>r. date_cell_ok lib (cell_at r ''date'')) (records games_df)
        then Inl ValueError
        else
          let games_df = apply_col ''date'' (to_datetime lib) games_df;
              games_df = assign ''year''
                (\<lambda>r. case cell_at r ''date'' of Day d \<Rightarrow> Num (real_of_int (year_of lib d))
                      | _ \<Rightarrow> Null) games_df;
              games_df = assign ''month''
                (\<lambda>r. case cell_at r ''date'' of Day d \<Rightarrow> Num (real_of_int (month_of lib d))
                      | _ \<Rightarrow> Null) games_df;
              games_df = assign ''day_of_week'' (\<lambda>r. dayofweek (cell_at r ''date'')) games_df;
              games_df = assign ''day_name''
                (\<lambda>r. case cell_at r ''date'' of
                        Day d \<Rightarrow> Str (day_names ! nat ((d - 1) mod 7)) | _ \<Rightarrow> Null) games_df;
              games_df = assign ''is_prime_time''
                (\<lambda>r. Bool (cell_at r ''day_of_week'' \<in> set [Num 0, Num 3])) games_df;
              games_df = assign ''is_sunday''
                (\<lambda>r. Bool (num_eq (cell_at r ''day_of_week'') (Num 6))) games_df
          in Inr games_df
      else Inr games_df)"

text \<open>Lines 268 to 277: the total points and their category.\<close>

definition total_points_features :: "frame \<Rightarrow> frame" where
  "total_points_features games_df =
     (if ''home_score'' \<in> set (columns games_df) \<and> ''away_score'' \<in> set (columns games_df) then
        let games_df = assign ''total_points''
              (\<lambda>r. add_cell (cell_at r ''home_score'') (cell_at r ''away_score'')) games_df;
            games_df = assign ''scoring_category''
              (\<lambda>r. pd_cut [At 0, At 35, At 45, At 55, PosInf] scoring_labels
                     (cell_at r ''total_points'')) games_df
        in games_df
      else games_df)"

definition create_game_features :: "pandas \<Rightarrow> frame \<Rightarrow> error + frame" where
  "create_game_features lib games_df =
     (if df_empty games_df then Inr empty_frame
      else
        case score_features games_df of
          Inl e \<Rightarrow> Inl e
        | Inr games_df \<Rightarrow>
            (case date_features lib (completion_flag games_df) of
               Inl e \<Rightarrow> Inl e
             | Inr games_df \<Rightarrow> Inr (total_points_features games_df)))"

section \<open>The team aggregator: \<open>create_team_aggregations\<close>\<close>

text \<open>
  Source: \<open>NFLDataTransformer.create_team_aggregations\<close> in
  \<open>nfl-data-pipeline/src/etl/transform.py\<close>.

  The aggregator reads seven columns of the feature-enriched games table, so a row of
  its input is a record of those seven cells. Numbers are pandas floats and are modelled
  as reals. A missing value (NaN/None) is \<open>None\<close>: \<open>game_id\<close> and the two team
  identifiers can be missing (the event cleaner coerces identifiers with
  \<open>errors='coerce'\<close> and never drops a row for it); the scores cannot, since the event
  cleaner fills them with 0. Whether the table has an \<open>is_completed\<close> column is a
  property of the table and is passed separately.
\<close>

record game =
  game_id :: "real option"
  home_team_id :: "real option"
  away_team_id :: "real option"
  home_score :: real
  away_score :: real
  point_differential :: real
  is_completed :: bool

text \<open>
  \<open>games_df[games_df['is_completed'] == True]\<close>, or without that column
  \<open>games_df[(games_df['home_score'] > 0) | (games_df['away_score'] > 0)]\<close>.
\<close>

definition completed_games :: "bool \<Rightarrow> game list \<Rightarrow> game list" where
  "completed_games has_is_completed games_df =
     (if has_is_completed then filter (\<lambda>g. is_completed g = True) games_df
      else filter (\<lambda>g. home_score g > 0 \<or> away_score g > 0) games_df)"

subsection \<open>Grouped aggregation\<close>

text \<open>
  \<open>groupby(key)\<close> with pandas' defaults (\<open>sort=True\<close>, \<open>dropna=True\<close>): one group per
  distinct key that is not missing, the groups in ascending order of the key, the rows of
  a group in table order.
\<close>

definition group_keys :: "(game \<Rightarrow> real option) \<Rightarrow> game list \<Rightarrow> real list" where
  "group_keys key games_df = sort (remdups (List.map_filter key games_df))"

definition group_rows :: "(game \<Rightarrow> real option) \<Rightarrow> real \<Rightarrow> game list \<Rightarrow> game list" where
  "group_rows key k games_df = filter (\<lambda>g. key g = Some k) games_df"

text \<open>
  The aggregation functions. \<open>'count'\<close> counts the cells of the group that are not
  missing; \<open>'mean'\<close> and \<open>'sum'\<close> are the usual ones; \<open>'std'\<close> is the sample standard
  deviation (\<open>ddof=1\<close>), NaN for a group of fewer than two rows. A group is never empty,
  so the mean never divides by zero.
\<close>

definition agg_count :: "'a option list \<Rightarrow> nat" where
  "agg_count xs = length (filter (\<lambda>x. x \<noteq> None) xs)"

definition agg_mean :: "real list \<Rightarrow> real" where
  "agg_mean xs = sum_list xs / real (length xs)"

definition agg_std :: "real list \<Rightarrow> real option" where
  "agg_std xs =
     (if length xs < 2 then None
      else Some (sqrt (sum_list (map (\<lambda>x. (x - agg_mean xs)\<^sup>2) xs) / real (length xs - 1))))"

text \<open>
  \<open>home_stats\<close> and \<open>away_stats\<close> as the grouped aggregation and the column
  assignment of lines 307 to 319 and 327 to 339 leave them: seven columns, the first
  labelled \<open>team_id\<close>. The two tables have the same shape; one record type holds a row
  of either, its fields named without the \<open>_home\<close>/\<open>_away\<close> suffix.
\<close>

record side_stats =
  side_team_id :: real
  side_games :: nat
  side_avg_points_scored :: real
  side_total_points :: real
  side_std_points :: "real option"
  side_avg_points_allowed :: real
  side_avg_differential :: real

definition home_stats :: "game list \<Rightarrow> side_stats list" where
  "home_stats completed =
     map (\<lambda>k. let grp = group_rows home_team_id k completed in
            \<lparr>side_team_id = k,
             side_games = agg_count (map game_id grp),
             side_avg_points_scored = agg_mean (map home_score grp),
             side_total_points = sum_list (map home_score grp),
             side_std_points = agg_std (map home_score grp),
             side_avg_points_allowed = agg_mean (map away_score grp),
             side_avg_differential = agg_mean (map point_differential grp)\<rparr>)
         (group_keys home_team_id completed)"

definition away_stats :: "game list \<Rightarrow> side_stats list" where
  "away_stats completed =
     map (\<lambda>k. let grp = group_rows away_team_id k completed in
            \<lparr>side_team_id = k,
             side_games = agg_count (map game_id grp),
             side_avg_points_scored = agg_mean (map away_score grp),
             side_total_points = sum_list (map away_score grp),
             side_std_points = agg_std (map away_score grp),
             side_avg_points_allowed = agg_mean (map home_score grp),
             side_avg_differential = - agg_mean (map point_differential grp)\<rparr>)
         (group_keys away_team_id completed)"

subsection \<open>The wins tables and their merge\<close>

text \<open>
  \<open>completed_games[home_score > away_score].groupby('home_team_id').size()
  .reset_index(name='home_wins')\<close>: the number of rows per group, for the teams that have
  at least one such row. \<open>reset_index\<close> turns the group key into a column that keeps the
  name of the grouping column, so the table has the columns \<open>home_team_id\<close> and
  \<open>home_wins\<close>. Nothing renames them. The away table is the mirror image, with the
  columns \<open>away_team_id\<close> and \<open>away_wins\<close>.
\<close>

record wins_table =
  wins_key :: string
  wins_rows :: "(real \<times> nat) list"

definition home_wins_table :: "game list \<Rightarrow> wins_table" where
  "home_wins_table completed =
     (let won = filter (\<lambda>g. home_score g > away_score g) completed
      in \<lparr>wins_key = ''home_team_id'',
          wins_rows = map (\<lambda>k. (k, length (group_rows home_team_id k won)))
                        (group_keys home_team_id won)\<rparr>)"

definition away_wins_table :: "game list \<Rightarrow> wins_table" where
  "away_wins_table completed =
     (let won = filter (\<lambda>g. away_score g > home_score g) completed
      in \<lparr>wins_key = ''away_team_id'',
          wins_rows = map (\<lambda>k. (k, length (group_rows away_team_id k won)))
                        (group_keys away_team_id won)\<rparr>)"

text \<open>
  \<open>stats.merge(wins, on=label, how='left')\<close>. pandas looks the label up in both tables
  and raises \<open>KeyError(label)\<close> when one of them has no such column, whatever rows
  the tables hold. The left table is a side table, whose key column is \<open>team_id\<close>.
  When both have the column, every row of the left table gets the count of its team, or a
  missing value when the wins table has no row for the team.
\<close>

definition merge_wins ::
  "side_stats list \<Rightarrow> wins_table \<Rightarrow> string \<Rightarrow> error + (side_stats \<times> nat option) list"
where
  "merge_wins stats wins label =
     (if label = ''team_id'' \<and> label = wins_key wins
      then Inr (map (\<lambda>s. (s, map_of (wins_rows wins) (side_team_id s))) stats)
      else Inl (KeyError label))"

text \<open>\<open>stats['home_wins'] = stats['home_wins'].fillna(0)\<close>, and the same for the away side.\<close>

definition fillna_wins :: "(side_stats \<times> nat option) list \<Rightarrow> (side_stats \<times> nat) list" where
  "fillna_wins stats = map (\<lambda>(s, w). (s, case w of None \<Rightarrow> 0 | Some n \<Rightarrow> n)) stats"

subsection \<open>The outer merge and the derived columns\<close>

text \<open>
  \<open>home_stats.merge(away_stats, on='team_id', how='outer')\<close>: one row per team
  identifier of either table, in ascending order of the identifier (an outer merge sorts
  the keys); the side a team has no row in is missing.
\<close>

definition outer_merge ::
  "(side_stats \<times> nat) list \<Rightarrow> (side_stats \<times> nat) list
     \<Rightarrow> (real \<times> (side_stats \<times> nat) option \<times> (side_stats \<times> nat) option) list"
where
  "outer_merge hs as =
     map (\<lambda>k. (k, find (\<lambda>s. side_team_id (fst s) = k) hs,
                  find (\<lambda>s. side_team_id (fst s) = k) as))
         (sort (remdups (map (side_team_id \<circ> fst) hs @ map (side_team_id \<circ> fst) as)))"

record merged_row =
  team_id :: real
  home_games :: real
  avg_points_scored_home :: real
  total_points_home :: real
  std_points_home :: real
  avg_points_allowed_home :: real
  avg_differential_home :: real
  home_wins :: real
  away_games :: real
  avg_points_scored_away :: real
  total_points_away :: real
  std_points_away :: real
  avg_points_allowed_away :: real
  avg_differential_away :: real
  away_wins :: real

text \<open>\<open>team_stats.fillna(0)\<close>: every missing cell of the merged table becomes 0.\<close>

definition fillna_0 :: "real option \<Rightarrow> real" where
  "fillna_0 x = (case x of None \<Rightarrow> 0 | Some v \<Rightarrow> v)"

definition fillna_row ::
  "real \<times> (side_stats \<times> nat) option \<times> (side_stats \<times> nat) option \<Rightarrow> merged_row"
where
  "fillna_row r =
     (case r of (k, h, a) \<Rightarrow>
       \<lparr>team_id = k,
        home_games = fillna_0 (map_option (\<lambda>s. real (side_games (fst s))) h),
        avg_points_scored_home = fillna_0 (map_option (side_avg_points_scored \<circ> fst) h),
        total_points_home = fillna_0 (map_option (side_total_points \<circ> fst) h),
        std_points_home = fillna_0 (Option.bind h (side_std_points \<circ> fst)),
        avg_points_allowed_home = fillna_0 (map_option (side_avg_points_allowed \<circ> fst) h),
        avg_differential_home = fillna_0 (map_option (side_avg_differential \<circ> fst) h),
        home_wins = fillna_0 (map_option (\<lambda>s. real (snd s)) h),
        away_games = fillna_0 (map_option (\<lambda>s. real (side_games (fst s))) a),
        avg_points_scored_away = fillna_0 (map_option (side_avg_points_scored \<circ> fst) a),
        total_points_away = fillna_0 (map_option (side_total_points \<circ> fst) a),
        std_points_away = fillna_0 (Option.bind a (side_std_points \<circ> fst)),
        avg_points_allowed_away = fillna_0 (map_option (side_avg_points_allowed \<circ> fst) a),
        avg_differential_away = fillna_0 (map_option (side_avg_differential \<circ> fst) a),
        away_wins = fillna_0 (map_option (\<lambda>s. real (snd s)) a)\<rparr>)"

record stats_row = merged_row +
  total_games :: real
  total_wins :: real
  total_losses :: real
  win_percentage :: real
  avg_points_scored :: real
  avg_points_allowed :: real
  net_points :: real
  home_field_advantage :: real

text \<open>\<open>Series.replace(0, 1)\<close> on the divisor column.\<close>

definition replace_0_1 :: "real \<Rightarrow> real" where
  "replace_0_1 x = (if x = 0 then 1 else x)"

text \<open>The column assignments of lines 350 to 371, on one row.\<close>

definition overall_stats :: "merged_row \<Rightarrow> stats_row" where
  "overall_stats m =
     (let tg = home_games m + away_games m;
          tw = home_wins m + away_wins m;
          tl = tg - tw;
          wp = tw / replace_0_1 tg;
          aps = (avg_points_scored_home m * home_games m
                  + avg_points_scored_away m * away_games m) / replace_0_1 tg;
          apa = (avg_points_allowed_home m * home_games m
                  + avg_points_allowed_away m * away_games m) / replace_0_1 tg;
          np = aps - apa;
          hfa = avg_differential_home m - avg_differential_away m
      in merged_row.extend m (stats_row.fields tg tw tl wp aps apa np hfa))"

subsection \<open>Ranking\<close>

text \<open>
  \<open>sort_values(['win_percentage', 'net_points'], ascending=[False, False])\<close>. With more
  than one sort column pandas sorts with a lexicographic indexer, which is stable: rows
  that agree on both columns keep their order. A descending column is sorted by its
  reversed order, not by reversing the result, so ties stay in table order. Neither
  column can hold a missing value after \<open>fillna(0)\<close>.
\<close>

definition sort_values :: "stats_row list \<Rightarrow> stats_row list" where
  "sort_values rows = sort_key (\<lambda>r. (- win_percentage r, - net_points r)) rows"

record ranked_row = stats_row +
  power_ranking :: nat

text \<open>\<open>team_stats['power_ranking'] = range(1, len(team_stats) + 1)\<close>.\<close>

definition assign_power_ranking :: "stats_row list \<Rightarrow> ranked_row list" where
  "assign_power_ranking rows =
     map (\<lambda>(r, k). stats_row.extend r (ranked_row.fields k))
         (zip rows [1 ..< length rows + 1])"

subsection \<open>The function\<close>

text \<open>
  The two early returns give \<open>pd.DataFrame()\<close>, a table without rows. With a completed
  game the function builds the home table and merges the home wins into it with
  \<open>on='team_id'\<close> (line 323), then does the same for the away side (line 343), and only
  then combines, fills, derives, sorts and ranks. An exception of a merge ends the call.
\<close>

definition create_team_aggregations :: "bool \<Rightarrow> game list \<Rightarrow> error + ranked_row list" where
  "create_team_aggregations has_is_completed games_df =
     (if games_df = [] then Inr []
      else let completed = completed_games has_is_completed games_df in
        if completed = [] then Inr []
        else
          case merge_wins (home_stats completed) (home_wins_table completed) ''team_id'' of
            Inl e \<Rightarrow> Inl e
          | Inr home_merged \<Rightarrow>
              (case merge_wins (away_stats completed) (away_wins_table completed) ''team_id'' of
                 Inl e \<Rightarrow> Inl e
               | Inr away_merged \<Rightarrow>
                   Inr (assign_power_ranking (sort_values (map overall_stats (map fillna_row
                          (outer_merge (fillna_wins home_merged) (fillna_wins away_merged))))))))"

subsection \<open>Example tables\<close>

text \<open>A completed game with its identifier and both teams present.\<close>

definition final_game :: "real \<Rightarrow> real \<Rightarrow> real \<Rightarrow> real \<Rightarrow> real \<Rightarrow> game" where
  "final_game gid h a hs as =
     \<lparr>game_id = Some gid, home_team_id = Some h, away_team_id = Some a,
      home_score = hs, away_score = as, point_differential = hs - as,
      is_completed = True\<rparr>"

text \<open>
  Two games with the same score between four teams: teams 1 and 3 have the same record,
  and so do teams 2 and 4.
\<close>

definition two_even_games :: "game list" where
  "two_even_games = [final_game 1 1 2 20 10, final_game 2 3 4 20 10]"

text \<open>
  Sixteen completed games of team 1 against team 2: ten at home that team 1 wins 24 to 10,
  six away that it wins 20 to 10.
\<close>

definition sixteen_games :: "game list" where
  "sixteen_games =
     map (\<lambda>i. final_game i 1 2 24 10) [1, 2, 3, 4, 5, 6, 7, 8, 9, 10]
     @ map (\<lambda>i. final_game i 2 1 10 20) [11, 12, 13, 14, 15, 16]"

text \<open>A completed game between teams 1 and 2 that ends 17 to 17.\<close>

definition tied_game :: game where
  "tied_game = final_game 3 1 2 17 17"

section \<open>Analysis notions and example tables for the frame functions\<close>

text \<open>
  \<open>keeps K df df'\<close>: the two frames have the same number of rows, and every row of
  \<open>df'\<close> agrees with the row of \<open>df\<close> at its position on the columns in \<open>K\<close>.
\<close>

definition keeps :: "string set \<Rightarrow> frame \<Rightarrow> frame \<Rightarrow> bool" where
  "keeps K df df' \<longleftrightarrow>
     list_all2 (\<lambda>r r'. \<forall>k\<in>K. cell_at r' k = cell_at r k) (records df) (records df')"

text \<open>The columns the score block of the feature engine reads or writes.\<close>

definition score_cells :: "string set" where
  "score_cells = {''home_score'', ''away_score'', ''home_team_id'', ''away_team_id'',
     ''point_differential'', ''winner_team_id'', ''margin_of_victory'', ''game_closeness''}"

text \<open>
  A games table in the canonical column names, and an instance of the library parameter
  for the examples. It gives \<open>pd.to_numeric\<close> and \<open>pd.to_datetime\<close> on the few
  strings the examples contain (8 September 2024, a Sunday, has ordinal 739137) and the
  year and month of that date; the examples print no number and no date.
\<close>

definition game_row ::
  "cell \<Rightarrow> cell \<Rightarrow> cell \<Rightarrow> cell \<Rightarrow> cell \<Rightarrow> cell \<Rightarrow> cell \<Rightarrow> cell \<Rightarrow> row" where
  "game_row gid wk dt h a hs as st =
     [(''game_id'', gid), (''week'', wk), (''date'', dt), (''home_team_id'', h),
      (''away_team_id'', a), (''home_score'', hs), (''away_score'', as), (''status'', st)]"

definition game_columns :: "string list" where
  "game_columns = [''game_id'', ''week'', ''date'', ''home_team_id'', ''away_team_id'',
                   ''home_score'', ''away_score'', ''status'']"

definition example_lib :: pandas where
  "example_lib =
     \<lparr>str_to_num = map_of [(''7'', 7), (''7.0'', 7), (''25'', 25)],
      str_to_date = map_of [(''2024-09-08'', 739137)],
      num_to_date = (\<lambda>x. None),
      num_to_str = (\<lambda>x. []),
      date_to_str = (\<lambda>d. []),
      year_of = (\<lambda>d. 2024),
      month_of = (\<lambda>d. 9)\<rparr>"

definition three_results :: frame where
  "three_results =
     \<lparr>columns = game_columns,
      records =
        [game_row (Num 1) (Num 1) (Day 739137) (Num 1) (Num 2) (Num 24) (Num 17) (Str ''Final''),
         game_row (Num 2) (Num 1) (Day 739137) (Num 3) (Num 4) (Num 10) (Num 20) (Str ''Final''),
         game_row (Num 3) (Num 1) (Day 739137) (Num 5) (Num 6) (Num 17) (Num 17) (Str ''Final'')]\<rparr>"

text \<open>A raw teams table with a name column only.\<close>

definition names_only :: frame where
  "names_only = \<lparr>columns = [''Name''], records = [[(''Name'', Str ''Chiefs'')]]\<rparr>"

text \<open>
  The column steps of the event cleaner seen from one row: \<open>row_apply cols c g\<close> is what
  \<open>df[c] = g(df[c])\<close>, guarded by \<open>if c in df.columns\<close>, does to a row of a frame
  with the columns \<open>cols\<close>.
\<close>

definition row_apply :: "string list \<Rightarrow> string \<Rightarrow> (cell \<Rightarrow> cell) \<Rightarrow> row \<Rightarrow> row" where
  "row_apply cols c g r = (if c \<in> set cols then set_cell c (g (cell_at r c)) r else r)"

definition score_rows :: "pandas \<Rightarrow> string list \<Rightarrow> row \<Rightarrow> row" where
  "score_rows lib cols r =
     row_apply cols ''away_score'' (\<lambda>v. fillna (Num 0) (to_numeric lib v))
       (row_apply cols ''home_score'' (\<lambda>v. fillna (Num 0) (to_numeric lib v)) r)"

definition numeric_rows :: "pandas \<Rightarrow> string list \<Rightarrow> row \<Rightarrow> row" where
  "numeric_rows lib cols r =
     row_apply cols ''away_team_id'' (to_numeric lib)
       (row_apply cols ''home_team_id'' (to_numeric lib)
         (row_apply cols ''week'' (to_numeric lib)
           (row_apply cols ''season'' (to_numeric lib) r)))"

text \<open>
  A raw games table under the upstream column names: a regular game, a game of team 3
  against itself, a game in week 25, a game whose week is the text \<open>TBD\<close>, and a second
  row with the identifier of the first. The rows below are the second, third and fourth
  as they look after the coercions.
\<close>

definition raw_game_columns :: "string list" where
  "raw_game_columns = [''GameID'', ''Week'', ''Date'', ''HomeTeamID'', ''AwayTeamID'',
                       ''HomeScore'', ''AwayScore'', ''Status'']"

definition raw_game_row ::
  "cell \<Rightarrow> cell \<Rightarrow> cell \<Rightarrow> cell \<Rightarrow> cell \<Rightarrow> cell \<Rightarrow> cell \<Rightarrow> cell \<Rightarrow> row" where
  "raw_game_row gid wk dt h a hs as st =
     [(''GameID'', gid), (''Week'', wk), (''Date'', dt), (''HomeTeamID'', h),
      (''AwayTeamID'', a), (''HomeScore'', hs), (''AwayScore'', as), (''Status'', st)]"

definition raw_games :: frame where
  "raw_games =
     \<lparr>columns = raw_game_columns,
      records =
        [raw_game_row (Num 1) (Num 1) (Str ''2024-09-08'') (Num 1) (Num 2) (Num 24) (Num 17)
           (Str ''Final''),
         raw_game_row (Num 2) (Num 1) (Str ''2024-09-08'') (Num 3) (Num 3) (Num 10) (Num 20)
           (Str ''Final''),
         raw_game_row (Num 3) (Str ''25'') (Str ''2024-09-08'') (Num 5) (Num 6) (Num 17) (Num 17)
           (Str ''Final''),
         raw_game_row (Num 4) (Str ''TBD'') (Str ''2024-09-08'') (Num 7) (Num 8) (Num 30) (Num 3)
           (Str ''Final''),
         raw_game_row (Num 1) (Num 2) (Str ''2024-09-08'') (Num 9) (Num 10) (Num 0) (Num 0)
           (Str ''Scheduled'')]\<rparr>"

definition self_play_row :: row where
  "self_play_row =
     game_row (Num 2) (Num 1) (Day 739137) (Num 3) (Num 3) (Num 10) (Num 20) (Str ''Final'')"

definition week_25_row :: row where
  "week_25_row =
     game_row (Num 3) (Num 25) (Day 739137) (Num 5) (Num 6) (Num 17) (Num 17) (Str ''Final'')"

definition week_nan_row :: row where
  "week_nan_row =
     game_row (Num 4) Null (Day 739137) (Num 7) (Num 8) (Num 30) (Num 3) (Str ''Final'')"

text \<open>
  Notions for following a column through the cleaners. A row is settled at a label when
  it has a cell under the label and all its cells under the label are equal (so that
  writing the cell it already holds leaves the row as it is); a column is fixed with a
  property \<open>P\<close> in a frame when, if the frame has the column, every row is settled at it
  and its cell has \<open>P\<close>. \<open>guarded c g\<close> is the guarded column step
  \<open>if c in df.columns: df[c] = g(df[c])\<close>, \<open>key_col c\<close> the values
  \<open>drop_duplicates\<close> compares, and \<open>key_cell\<close> the first cell of such a value.
\<close>

definition settled :: "string \<Rightarrow> row \<Rightarrow> bool" where
  "settled c r \<longleftrightarrow> c \<in> set (map fst r) \<and> list_all (\<lambda>(k, x). k = c \<longrightarrow> x = cell_at r c) r"

definition all_fixed :: "string \<Rightarrow> (cell \<Rightarrow> bool) \<Rightarrow> frame \<Rightarrow> bool" where
  "all_fixed c P df \<longleftrightarrow>
     (c \<in> set (columns df) \<longrightarrow> list_all (\<lambda>r. settled c r \<and> P (cell_at r c)) (records df))"

definition guarded :: "string \<Rightarrow> (cell \<Rightarrow> cell) \<Rightarrow> frame \<Rightarrow> frame" where
  "guarded c g df = (if c \<in> set (columns df) then apply_col c g df else df)"

definition key_cell :: "cell list \<Rightarrow> cell" where
  "key_cell vs = (case vs of [] \<Rightarrow> Null | v # ws \<Rightarrow> v)"

definition key_col :: "string \<Rightarrow> frame \<Rightarrow> cell list list" where
  "key_col c df = map (\<lambda>r. map dup_key (cells_at r c)) (records df)"

text \<open>The shapes of cleaned cells.\<close>

definition is_num :: "cell \<Rightarrow> bool" where
  "is_num v = (case v of Num x \<Rightarrow> True | _ \<Rightarrow> False)"

definition is_day :: "cell \<Rightarrow> bool" where
  "is_day v = (case v of Day d \<Rightarrow> True | _ \<Rightarrow> False)"

definition is_stripped :: "cell \<Rightarrow> bool" where
  "is_stripped v = (case v of Str s \<Rightarrow> str_strip s = s | _ \<Rightarrow> False)"

definition valid_conference :: "cell \<Rightarrow> bool" where
  "valid_conference v \<longleftrightarrow> v \<in> set [Str ''AFC'', Str ''NFC'', Str ''Unknown'']"

definition is_int :: "cell \<Rightarrow> bool" where
  "is_int v = (case v of Num x \<Rightarrow> of_int \<lfloor>x\<rfloor> = x | _ \<Rightarrow> False)"

text \<open>
  More example tables: a games table whose only game is a team against itself; a raw teams
  table with a repeated identifier, a name with blanks around it, a missing city and
  division and an unknown conference; and two teams tables whose identifiers differ as
  raw cells and agree as integers.
\<close>

definition self_play_only :: frame where
  "self_play_only =
     \<lparr>columns = raw_game_columns,
      records =
        [raw_game_row (Num 2) (Num 1) (Str ''2024-09-08'') (Num 3) (Num 3) (Num 10) (Num 20)
           (Str ''Final'')]\<rparr>"

definition raw_team_columns :: "string list" where
  "raw_team_columns = [''TeamID'', ''Name'', ''City'', ''Key'', ''Conference'', ''Division'']"

definition raw_team_row :: "cell \<Rightarrow> cell \<Rightarrow> cell \<Rightarrow> cell \<Rightarrow> cell \<Rightarrow> cell \<Rightarrow> row" where
  "raw_team_row tid nm city ky conf dv =
     [(''TeamID'', tid), (''Name'', nm), (''City'', city), (''Key'', ky),
      (''Conference'', conf), (''Division'', dv)]"

definition raw_teams :: frame where
  "raw_teams =
     \<lparr>columns = raw_team_columns,
      records =
        [raw_team_row (Num 1) (Str '' Chiefs '') Null (Str ''KC'') (Str ''AFC'') (Str ''West''),
         raw_team_row (Num 2) (Str ''Raiders'') (Str ''Las Vegas'') (Str ''LV'') (Str ''XFL'') Null,
         raw_team_row (Num 1) (Str ''Chiefs again'') Null (Str ''KC'') (Str ''AFC'')
           (Str ''West'')]\<rparr>"

definition fractional_ids :: frame where
  "fractional_ids =
     \<lparr>columns = [''TeamID'', ''Name''],
      records = [[(''TeamID'', Num 7), (''Name'', Str ''Chiefs'')],
                 [(''TeamID'', Num 7.5), (''Name'', Str ''Raiders'')]]\<rparr>"

definition text_ids :: frame where
  "text_ids =
     \<lparr>columns = [''TeamID'', ''Name''],
      records = [[(''TeamID'', Str ''7''), (''Name'', Str ''Chiefs'')],
                 [(''TeamID'', Str ''7.0''), (''Name'', Str ''Raiders'')],
                 [(''TeamID'', Str ''unknown''), (''Name'', Str ''Broncos'')]]\<rparr>"

text \<open>
  A raw games table with two scheduled games: one whose two team cells hold the same
  text, one whose week is a text.
\<close>

definition unparsed_games :: frame where
  "unparsed_games =
     \<lparr>columns = raw_game_columns,
      records =
        [raw_game_row (Num 6) (Num 1) (Str ''2024-09-08'') (Str ''TBD'') (Str ''TBD'') (Num 0)
           (Num 0) (Str ''Scheduled''),
         raw_game_row (Num 7) (Str ''TBD'') (Str ''2024-09-08'') (Num 1) (Num 2) (Num 0)
           (Num 0) (Str ''Scheduled'')]\<rparr>"

text \<open>
  Raw tables that hold an upstream column name beside its canonical name: a teams table
  with \<open>Name\<close> and \<open>name\<close>, one with \<open>TeamID\<close> and \<open>team_id\<close>, a games table with
  \<open>HomeScore\<close> and \<open>home_score\<close>, and one with \<open>GameID\<close> and \<open>game_id\<close>.
\<close>

definition name_twice :: frame where
  "name_twice =
     \<lparr>columns = [''Name'', ''name''],
      records = [[(''Name'', Str ''Chiefs''), (''name'', Str ''Kansas City Chiefs'')]]\<rparr>"

definition team_id_twice :: frame where
  "team_id_twice =
     \<lparr>columns = [''TeamID'', ''team_id''],
      records = [[(''TeamID'', Num 1), (''team_id'', Num 1)]]\<rparr>"

definition home_score_twice :: frame where
  "home_score_twice =
     \<lparr>columns = [''HomeScore'', ''home_score''],
      records = [[(''HomeScore'', Num 24), (''home_score'', Num 24)]]\<rparr>"

definition game_id_twice :: frame where
  "game_id_twice =
     \<lparr>columns = [''GameID'', ''game_id''],
      records = [[(''GameID'', Num 1), (''game_id'', Num 1)],
                 [(''GameID'', Num 1), (''game_id'', Num 2)],
                 [(''GameID'', Num 1), (''game_id'', Num 1)]]\<rparr>"

section \<open>Properties of the feature engine\<close>

lemma map_of_overwrite:
  "map_of (map (\<lambda>(k, x). if k = c then (k, v) else (k, x)) r) c'
     = (if c' = c then (if c \<in> set (map fst r) then Some v else None) else map_of r c')"
  by (induction r) (auto split: if_splits)

lemma cell_at_set_cell:
  "cell_at (set_cell c v r) c' = (if c' = c then v else cell_at r c')"
proof (cases "c \<in> set (map fst r)")
  case True
  then show ?thesis
    by (simp add: cell_at_def set_cell_def map_of_overwrite del: set_map)
next
  case False
  then have "map_of r c = None" by (simp add: map_of_eq_None_iff)
  with False show ?thesis
    by (auto simp: cell_at_def set_cell_def map_add_def split: option.splits simp del: set_map)
qed

lemma records_assign: "records (assign c f df) = map (\<lambda>r. set_cell c (f r) r) (records df)"
  by (simp add: assign_def)

lemma columns_assign:
  "columns (assign c f df) = (if c \<in> set (columns df) then columns df else columns df @ [c])"
  by (simp add: assign_def)

lemma set_columns_assign: "set (columns (assign c f df)) = insert c (set (columns df))"
  by (auto simp: assign_def)

lemma keeps_refl: "keeps K df df"
  by (simp add: keeps_def list_all2_refl)

lemma keeps_trans [trans]: "keeps K a b \<Longrightarrow> keeps K b c \<Longrightarrow> keeps K a c"
  unfolding keeps_def list_all2_conv_all_nth by auto

lemma keeps_assign: "c \<notin> K \<Longrightarrow> keeps K df (assign c f df)"
  by (auto simp: keeps_def records_assign list_all2_map2 cell_at_set_cell intro!: list_all2_refl)

lemma keeps_apply_col: "c \<notin> K \<Longrightarrow> keeps K df (apply_col c g df)"
  by (simp add: apply_col_def keeps_assign)


lemma keeps_completion_flag: "keeps score_cells df (completion_flag df)"
  by (simp add: completion_flag_def keeps_refl keeps_assign score_cells_def)

lemma keeps_total_points: "keeps score_cells df (total_points_features df)"
  unfolding total_points_features_def Let_def
  by (auto simp: keeps_refl score_cells_def intro!: keeps_trans[OF keeps_assign keeps_assign])

lemma keeps_date_features:
  assumes "date_features lib df = Inr df'"
  shows "keeps score_cells df df'"
proof (cases "''date'' \<in> set (columns df)")
  case False
  with assms show ?thesis by (simp add: date_features_def keeps_refl)
next
  case True
  let ?d1 = "apply_col ''date'' (to_datetime lib) df"
  let ?d2 = "assign ''year''
                (\<lambda>r. case cell_at r ''date'' of Day d \<Rightarrow> Num (real_of_int (year_of lib d))
                      | _ \<Rightarrow> Null) ?d1"
  let ?d3 = "assign ''month''
                (\<lambda>r. case cell_at r ''date'' of Day d \<Rightarrow> Num (real_of_int (month_of lib d))
                      | _ \<Rightarrow> Null) ?d2"
  let ?d4 = "assign ''day_of_week'' (\<lambda>r. dayofweek (cell_at r ''date'')) ?d3"
  let ?d5 = "assign ''day_name''
                (\<lambda>r. case cell_at r ''date'' of
                        Day d \<Rightarrow> Str (day_names ! nat ((d - 1) mod 7)) | _ \<Rightarrow> Null) ?d4"
  let ?d6 = "assign ''is_prime_time''
                (\<lambda>r. Bool (cell_at r ''day_of_week'' \<in> set [Num 0, Num 3])) ?d5"
  let ?d7 = "assign ''is_sunday''
                (\<lambda>r. Bool (num_eq (cell_at r ''day_of_week'') (Num 6))) ?d6"
  from assms True have df': "df' = ?d7"
    by (simp add: date_features_def Let_def split: if_splits)
  have "keeps score_cells df ?d1" by (rule keeps_apply_col) (simp add: score_cells_def)
  also have "keeps score_cells ?d1 ?d2" by (rule keeps_assign) (simp add: score_cells_def)
  also have "keeps score_cells ?d2 ?d3" by (rule keeps_assign) (simp add: score_cells_def)
  also have "keeps score_cells ?d3 ?d4" by (rule keeps_assign) (simp add: score_cells_def)
  also have "keeps score_cells ?d4 ?d5" by (rule keeps_assign) (simp add: score_cells_def)
  also have "keeps score_cells ?d5 ?d6" by (rule keeps_assign) (simp add: score_cells_def)
  also have "keeps score_cells ?d6 ?d7" by (rule keeps_assign) (simp add: score_cells_def)
  finally show ?thesis unfolding df' .
qed

text \<open>What the score block writes into a row.\<close>

lemma score_features_cells:
  assumes "score_features df = Inr df'"
    and "''home_score'' \<in> set (columns df)" "''away_score'' \<in> set (columns df)"
  shows "list_all2 (\<lambda>r r'.
           cell_at r' ''home_score'' = cell_at r ''home_score''
         \<and> cell_at r' ''away_score'' = cell_at r ''away_score''
         \<and> cell_at r' ''home_team_id'' = cell_at r ''home_team_id''
         \<and> cell_at r' ''away_team_id'' = cell_at r ''away_team_id''
         \<and> cell_at r' ''point_differential''
             = sub_cell (cell_at r ''home_score'') (cell_at r ''away_score'')
         \<and> cell_at r' ''winner_team_id''
             = (if num_less (cell_at r ''away_score'') (cell_at r ''home_score'')
                then cell_at r ''home_team_id''
                else if num_less (cell_at r ''home_score'') (cell_at r ''away_score'')
                then cell_at r ''away_team_id'' else Null)
         \<and> cell_at r' ''margin_of_victory''
             = abs_cell (sub_cell (cell_at r ''home_score'') (cell_at r ''away_score''))
         \<and> cell_at r' ''game_closeness''
             = pd_cut [At 0, At 3, At 7, At 14, PosInf] closeness_labels
                 (abs_cell (sub_cell (cell_at r ''home_score'') (cell_at r ''away_score''))))
         (records df) (records df')"
  using assms
  by (auto simp: score_features_def Let_def records_assign set_columns_assign
      list_all2_map2 cell_at_set_cell split: if_splits intro!: list_all2_refl)


lemma list_all2_keeps:
  assumes "list_all2 P (records a) (records b)" and "keeps K b c"
    and "\<And>r r' r''. P r r' \<Longrightarrow> \<forall>k\<in>K. cell_at r'' k = cell_at r' k \<Longrightarrow> P r r''"
  shows "list_all2 P (records a) (records c)"
  using assms unfolding keeps_def list_all2_conv_all_nth by auto

lemma create_game_features_cells:
  assumes "create_game_features lib df = Inr out"
    and "''home_score'' \<in> set (columns df)" "''away_score'' \<in> set (columns df)"
  shows "list_all2 (\<lambda>r r'.
           cell_at r' ''home_score'' = cell_at r ''home_score''
         \<and> cell_at r' ''away_score'' = cell_at r ''away_score''
         \<and> cell_at r' ''home_team_id'' = cell_at r ''home_team_id''
         \<and> cell_at r' ''away_team_id'' = cell_at r ''away_team_id''
         \<and> cell_at r' ''point_differential''
             = sub_cell (cell_at r ''home_score'') (cell_at r ''away_score'')
         \<and> cell_at r' ''winner_team_id''
             = (if num_less (cell_at r ''away_score'') (cell_at r ''home_score'')
                then cell_at r ''home_team_id''
                else if num_less (cell_at r ''home_score'') (cell_at r ''away_score'')
                then cell_at r ''away_team_id'' else Null)
         \<and> cell_at r' ''margin_of_victory''
             = abs_cell (sub_cell (cell_at r ''home_score'') (cell_at r ''away_score''))
         \<and> cell_at r' ''game_closeness''
             = pd_cut [At 0, At 3, At 7, At 14, PosInf] closeness_labels
                 (abs_cell (sub_cell (cell_at r ''home_score'') (cell_at r ''away_score''))))
         (records df) (records out)"
    (is "list_all2 ?P _ _")
proof (cases "df_empty df")
  case True
  with assms(2) have "records df = []" by (auto simp: df_empty_def)
  moreover from True assms(1) have "records out = []"
    by (auto simp: create_game_features_def empty_frame_def)
  ultimately show ?thesis by simp
next
  case False
  with assms(1) obtain d1 d3 where d1: "score_features df = Inr d1"
    and d3: "date_features lib (completion_flag d1) = Inr d3"
    and out: "out = total_points_features d3"
    by (auto simp: create_game_features_def split: sum.splits)
  have "keeps score_cells d1 (completion_flag d1)" by (rule keeps_completion_flag)
  also have "keeps score_cells (completion_flag d1) d3" using d3 by (rule keeps_date_features)
  also have "keeps score_cells d3 out" unfolding out by (rule keeps_total_points)
  finally have k: "keeps score_cells d1 out" .
  from score_features_cells[OF d1 assms(2,3)] k show ?thesis
    by (rule list_all2_keeps) (simp add: score_cells_def)
qed

text \<open>
  Claim C8. When the feature engine returns a table for a games table with both score
  columns, the result has a row for every input row, and for a row whose scores are the
  numbers \<open>x\<close> (home) and \<open>y\<close> (away) the cell \<open>winner_team_id\<close> is the row's
  \<open>home_team_id\<close> when \<open>x > y\<close>, its \<open>away_team_id\<close> when \<open>y > x\<close>, and missing
  (None) when \<open>x = y\<close>.
\<close>

theorem winner_three_way:
  assumes "create_game_features lib games_df = Inr out"
    and "''home_score'' \<in> set (columns games_df)"
    and "''away_score'' \<in> set (columns games_df)"
  shows "length (records out) = length (records games_df)
     \<and> (\<forall>i<length (records games_df). \<forall>x y.
           cell_at (records games_df ! i) ''home_score'' = Num x
         \<and> cell_at (records games_df ! i) ''away_score'' = Num y \<longrightarrow>
           (y < x \<longrightarrow> cell_at (records out ! i) ''winner_team_id''
                        = cell_at (records games_df ! i) ''home_team_id'')
         \<and> (x < y \<longrightarrow> cell_at (records out ! i) ''winner_team_id''
                        = cell_at (records games_df ! i) ''away_team_id'')
         \<and> (x = y \<longrightarrow> cell_at (records out ! i) ''winner_team_id'' = Null))"
  using create_game_features_cells[OF assms]
  unfolding list_all2_conv_all_nth
  by (auto simp: num_less_def)

lemma three_results_features:
  "\<not> isl (create_game_features example_lib three_results)"
  by code_simp

text \<open>
  \<open>three_results\<close> holds a home win (24 to 17, teams 1 and 2), an away win (10 to 20,
  teams 3 and 4) and a tie (17 to 17): the winners are 1, 4 and none.
\<close>

theorem winner_three_way_witness:
  "(\<exists>out. create_game_features example_lib three_results = Inr out
      \<and> ''home_score'' \<in> set (columns three_results)
      \<and> ''away_score'' \<in> set (columns three_results)
      \<and> length (records out) = 3
      \<and> cell_at (records three_results ! 0) ''home_score'' = Num 24
      \<and> cell_at (records three_results ! 0) ''away_score'' = Num 17
      \<and> cell_at (records out ! 0) ''winner_team_id'' = Num 1
      \<and> cell_at (records three_results ! 1) ''home_score'' = Num 10
      \<and> cell_at (records three_results ! 1) ''away_score'' = Num 20
      \<and> cell_at (records out ! 1) ''winner_team_id'' = Num 4
      \<and> cell_at (records three_results ! 2) ''home_score'' = Num 17
      \<and> cell_at (records three_results ! 2) ''away_score'' = Num 17
      \<and> cell_at (records out ! 2) ''winner_team_id'' = Null)"
proof -
  obtain out where out: "create_game_features example_lib three_results = Inr out"
    using three_results_features by (cases "create_game_features example_lib three_results") auto
  have cols: "''home_score'' \<in> set (columns three_results)"
    "''away_score'' \<in> set (columns three_results)"
    by (simp_all add: three_results_def game_columns_def)
  have len: "length (records three_results) = 3"
    by (simp add: three_results_def)
  have cells:
    "cell_at (records three_results ! 0) ''home_score'' = Num 24"
    "cell_at (records three_results ! 0) ''away_score'' = Num 17"
    "cell_at (records three_results ! 0) ''home_team_id'' = Num 1"
    "cell_at (records three_results ! 1) ''home_score'' = Num 10"
    "cell_at (records three_results ! 1) ''away_score'' = Num 20"
    "cell_at (records three_results ! 1) ''away_team_id'' = Num 4"
    "cell_at (records three_results ! 2) ''home_score'' = Num 17"
    "cell_at (records three_results ! 2) ''away_score'' = Num 17"
    by (simp_all add: three_results_def game_row_def cell_at_def)
  note C8 = winner_three_way[OF out cols]
  from C8 len have l3: "length (records out) = 3" by simp
  have w0: "cell_at (records out ! 0) ''winner_team_id'' = Num 1"
    using C8[THEN conjunct2, rule_format, of 0 24 17] len cells by simp
  have w1: "cell_at (records out ! 1) ''winner_team_id'' = Num 4"
    using C8[THEN conjunct2, rule_format, of 1 10 20] len cells by simp
  have w2: "cell_at (records out ! 2) ''winner_team_id'' = Null"
    using C8[THEN conjunct2, rule_format, of 2 17 17] len cells by simp
  from out cols l3 cells w0 w1 w2 show ?thesis by blast
qed

text \<open>
  Claim C10. When the feature engine returns a table for a games table with both score
  columns, every row whose two scores are the same number gets \<open>margin_of_victory = 0\<close>
  and \<open>game_closeness = 'Very Close (1-3)'\<close>: the margin 0 equals the lowest bin edge,
  which \<open>include_lowest=True\<close> puts into the first bin.
\<close>

theorem tie_is_very_close:
  assumes "create_game_features lib games_df = Inr out"
    and "''home_score'' \<in> set (columns games_df)"
    and "''away_score'' \<in> set (columns games_df)"
  shows "length (records out) = length (records games_df)
     \<and> (\<forall>i<length (records games_df). \<forall>x.
           cell_at (records games_df ! i) ''home_score'' = Num x
         \<and> cell_at (records games_df ! i) ''away_score'' = Num x \<longrightarrow>
           cell_at (records out ! i) ''margin_of_victory'' = Num 0
         \<and> cell_at (records out ! i) ''game_closeness'' = Str ''Very Close (1-3)'')"
  using create_game_features_cells[OF assms]
  unfolding list_all2_conv_all_nth
  by (auto simp: sub_cell_def abs_cell_def pd_cut_def closeness_labels_def)

text \<open>The third game of \<open>three_results\<close> ends 17 to 17.\<close>

theorem tie_is_very_close_witness:
  "(\<exists>out. create_game_features example_lib three_results = Inr out
      \<and> ''home_score'' \<in> set (columns three_results)
      \<and> ''away_score'' \<in> set (columns three_results)
      \<and> (2::nat) < length (records three_results)
      \<and> cell_at (records three_results ! 2) ''home_score'' = Num 17
      \<and> cell_at (records three_results ! 2) ''away_score'' = Num 17
      \<and> cell_at (records out ! 2) ''margin_of_victory'' = Num 0
      \<and> cell_at (records out ! 2) ''game_closeness'' = Str ''Very Close (1-3)'')"
proof -
  obtain out where out: "create_game_features example_lib three_results = Inr out"
    using three_results_features by (cases "create_game_features example_lib three_results") auto
  have cols: "''home_score'' \<in> set (columns three_results)"
    "''away_score'' \<in> set (columns three_results)"
    by (simp_all add: three_results_def game_columns_def)
  have len: "(2::nat) < length (records three_results)"
    by (simp add: three_results_def)
  have cells:
    "cell_at (records three_results ! 2) ''home_score'' = Num 17"
    "cell_at (records three_results ! 2) ''away_score'' = Num 17"
    by (simp_all add: three_results_def game_row_def cell_at_def)
  have "cell_at (records out ! 2) ''margin_of_victory'' = Num 0
      \<and> cell_at (records out ! 2) ''game_closeness'' = Str ''Very Close (1-3)''"
    using tie_is_very_close[OF out cols, THEN conjunct2, rule_format, of 2 17] len cells
    by simp
  with out cols len cells show ?thesis by blast
qed

section \<open>Properties of the entity cleaner\<close>

lemma columns_apply_col_present:
  "c \<in> set (columns df) \<Longrightarrow> columns (apply_col c g df) = columns df"
  by (simp add: apply_col_def assign_def)

lemma records_apply_col:
  "records (apply_col c g df) = map (\<lambda>r. set_cell c (g (cell_at r c)) r) (records df)"
  by (simp add: apply_col_def assign_def)

lemma columns_fill_unknown: "columns (fill_unknown c df) = columns df"
  by (simp add: fill_unknown_def columns_apply_col_present)

lemma length_fill_unknown: "length (records (fill_unknown c df)) = length (records df)"
  by (simp add: fill_unknown_def records_apply_col)

lemma columns_strip_text: "columns (strip_text lib c df) = columns df"
  by (simp add: strip_text_def columns_apply_col_present)

lemma length_strip_text: "length (records (strip_text lib c df)) = length (records df)"
  by (simp add: strip_text_def records_apply_col)

lemma columns_validate_conference: "columns (validate_conference df) = columns df"
  by (simp add: validate_conference_def Let_def columns_assign)

lemma length_validate_conference:
  "length (records (validate_conference df)) = length (records df)"
  by (simp add: validate_conference_def Let_def records_assign)

lemma columns_fold_same:
  assumes "\<And>c d. columns (step c d) = columns d"
  shows "columns (fold step cs df) = columns df"
  using assms by (induction cs arbitrary: df) simp_all

lemma length_fold_same:
  assumes "\<And>c d. length (records (step c d)) = length (records d)"
  shows "length (records (fold step cs df)) = length (records df)"
  using assms by (induction cs arbitrary: df) simp_all

lemma columns_rename_columns:
  "columns (rename_columns m df)
     = map (rename_label (filter (\<lambda>(old_col, new_col). old_col \<in> set (columns df)) m))
         (columns df)"
  by (simp add: rename_columns_def Let_def)

lemma length_rename_columns: "length (records (rename_columns m df)) = length (records df)"
  by (simp add: rename_columns_def Let_def)

lemma rename_label_filter:
  "c \<in> set (columns df) \<Longrightarrow>
     rename_label (filter (\<lambda>(old_col, new_col). old_col \<in> set (columns df)) m) c
       = rename_label m c"
  by (induction m) (auto simp: rename_label_def)

lemma columns_rename_columns':
  "columns (rename_columns m df) = map (rename_label m) (columns df)"
  by (simp add: columns_rename_columns rename_label_filter)

lemma team_id_origin:
  "rename_label team_column_mapping c = ''team_id'' \<Longrightarrow> c = ''TeamID'' \<or> c = ''team_id''"
  by (auto simp: rename_label_def team_column_mapping_def split: option.splits if_splits)

lemma dedup_teams_none:
  "set (columns df) \<inter> set id_columns = {} \<Longrightarrow> dedup_teams df = df"
  by (auto simp: dedup_teams_def id_columns_def)

text \<open>
  When the renamed labels are pairwise distinct no label is repeated, and no step of a
  cleaner raises.
\<close>

lemma count_list_distinct: "distinct xs \<Longrightarrow> count_list xs x \<le> 1"
  by (induction xs) (auto simp: count_list_0_iff)

lemma not_repeated_rename_columns:
  "distinct (map (rename_label m) (columns df)) \<Longrightarrow> \<not> repeated c (rename_columns m df)"
  using count_list_distinct[of "map (rename_label m) (columns df)" c]
  by (simp add: repeated_def columns_rename_columns')

lemma clean_teams_data_raises_distinct:
  assumes "distinct (map (rename_label team_column_mapping) (columns df))"
  shows "clean_teams_data_raises df = None"
proof -
  have "columns (dedup_teams df) = columns df"
    by (simp add: dedup_teams_def drop_duplicates_def split: option.splits)
  with assms have "\<not> repeated c (rename_columns team_column_mapping (dedup_teams df))" for c
    by (simp add: not_repeated_rename_columns)
  then show ?thesis by (simp add: clean_teams_data_raises_def Let_def)
qed

lemma clean_games_data_raises_distinct:
  assumes "distinct (map (rename_label game_column_mapping) (columns df))"
  shows "clean_games_data_raises df = None"
proof -
  from assms have "\<not> repeated c (rename_columns game_column_mapping df)" for c
    by (rule not_repeated_rename_columns)
  then show ?thesis by (simp add: clean_games_data_raises_def Let_def)
qed

section \<open>Properties of the event cleaner\<close>

subsection \<open>The steps of the event cleaner, row by row\<close>

lemma set_keep_first: "set (keep_first key seen xs) \<subseteq> set xs"
  by (induction xs arbitrary: seen) auto

lemma columns_drop_duplicates: "columns (drop_duplicates c df) = columns df"
  by (simp add: drop_duplicates_def)

lemma columns_dedup_games: "columns (dedup_games df) = columns df"
  by (simp add: dedup_games_def columns_drop_duplicates)

lemma set_records_dedup_games: "set (records (dedup_games df)) \<subseteq> set (records df)"
  by (auto simp: dedup_games_def drop_duplicates_def dest: set_keep_first[THEN subsetD])

lemma columns_coerce_score: "columns (coerce_score lib c df) = columns df"
  by (simp add: coerce_score_def columns_apply_col_present)

lemma records_coerce_score:
  "records (coerce_score lib c df)
     = map (\<lambda>r. if c \<in> set (columns df)
                 then set_cell c (fillna (Num 0) (to_numeric lib (cell_at r c))) r else r)
         (records df)"
  by (simp add: coerce_score_def records_apply_col)

lemma columns_select_rows: "columns (select_rows P df) = columns df"
  by (simp add: select_rows_def)

lemma records_select_rows: "records (select_rows P df) = filter P (records df)"
  by (simp add: select_rows_def)

lemma columns_clean_date: "columns (clean_date lib df) = columns df"
  by (simp add: clean_date_def dropna_def columns_select_rows columns_apply_col_present)

lemma records_clean_date:
  "records (clean_date lib df)
     = (if ''date'' \<in> set (columns df)
        then filter (\<lambda>r. cell_at r ''date'' \<noteq> Null)
               (map (\<lambda>r. set_cell ''date'' (to_datetime lib (cell_at r ''date'')) r) (records df))
        else records df)"
  by (simp add: clean_date_def dropna_def records_select_rows records_apply_col)

lemma columns_coerce_numeric: "columns (coerce_numeric lib c df) = columns df"
  by (simp add: coerce_numeric_def columns_apply_col_present)

lemma records_coerce_numeric:
  "records (coerce_numeric lib c df)
     = map (\<lambda>r. if c \<in> set (columns df) then set_cell c (to_numeric lib (cell_at r c)) r else r)
         (records df)"
  by (simp add: coerce_numeric_def records_apply_col)

lemma columns_standardize_games:
  "columns (standardize_games lib df) = columns (rename_columns game_column_mapping df)"
  by (simp add: standardize_games_def Let_def columns_coerce_numeric columns_clean_date
      columns_coerce_score columns_dedup_games)

text \<open>The business rules as filters.\<close>

lemma filter_none: "\<not> list_ex P xs \<Longrightarrow> filter (\<lambda>x. \<not> P x) xs = xs"
  by (induction xs) auto

lemma columns_drop_self_play: "columns (drop_self_play df) = columns df"
  by (simp add: drop_self_play_def Let_def columns_select_rows)

lemma columns_drop_invalid_weeks: "columns (drop_invalid_weeks df) = columns df"
  by (simp add: drop_invalid_weeks_def Let_def columns_select_rows)

lemma records_drop_self_play:
  "records (drop_self_play df)
     = filter (\<lambda>r. \<not> (''home_team_id'' \<in> set (columns df) \<and> ''away_team_id'' \<in> set (columns df)
                      \<and> num_eq (cell_at r ''home_team_id'') (cell_at r ''away_team_id'')))
         (records df)"
proof (cases "''home_team_id'' \<in> set (columns df) \<and> ''away_team_id'' \<in> set (columns df)")
  case True
  let ?same = "\<lambda>r. num_eq (cell_at r ''home_team_id'') (cell_at r ''away_team_id'')"
  have "records (drop_self_play df) = filter (\<lambda>r. \<not> ?same r) (records df)"
    using True filter_none[of ?same "records df"]
    by (simp add: drop_self_play_def Let_def records_select_rows)
  with True show ?thesis by simp
next
  case False
  then have "drop_self_play df = df" by (auto simp: drop_self_play_def)
  with False show ?thesis by auto
qed

lemma records_drop_invalid_weeks:
  "records (drop_invalid_weeks df)
     = filter (\<lambda>r. \<not> (''week'' \<in> set (columns df)
                      \<and> (num_less (cell_at r ''week'') (Num 1)
                         \<or> num_less (Num 22) (cell_at r ''week''))))
         (records df)"
proof (cases "''week'' \<in> set (columns df)")
  case True
  let ?bad = "\<lambda>r. num_less (cell_at r ''week'') (Num 1) \<or> num_less (Num 22) (cell_at r ''week'')"
  have "records (drop_invalid_weeks df) = filter (\<lambda>r. \<not> ?bad r) (records df)"
    using True filter_none[of ?bad "records df"]
    by (simp add: drop_invalid_weeks_def Let_def records_select_rows)
  with True show ?thesis by simp
next
  case False
  then have "drop_invalid_weeks df = df" by (auto simp: drop_invalid_weeks_def)
  with False show ?thesis by auto
qed

lemma clean_games_data_nonempty:
  "\<not> df_empty df \<Longrightarrow>
     clean_games_data lib df = drop_invalid_weeks (drop_self_play (standardize_games lib df))"
  by (simp add: clean_games_data_def Let_def)


lemma cell_at_row_apply:
  "cell_at (row_apply cols c g r) k
     = (if k = c \<and> c \<in> set cols then g (cell_at r c) else cell_at r k)"
  by (simp add: row_apply_def cell_at_set_cell)

lemma records_coerce_score': 
  "records (coerce_score lib c df)
     = map (row_apply (columns df) c (\<lambda>v. fillna (Num 0) (to_numeric lib v))) (records df)"
  by (simp add: records_coerce_score row_apply_def)

lemma records_coerce_numeric':
  "records (coerce_numeric lib c df) = map (row_apply (columns df) c (to_numeric lib)) (records df)"
  by (simp add: records_coerce_numeric row_apply_def)

lemma records_clean_date':
  "records (clean_date lib df)
     = filter (\<lambda>r. ''date'' \<in> set (columns df) \<longrightarrow> cell_at r ''date'' \<noteq> Null)
         (map (row_apply (columns df) ''date'' (to_datetime lib)) (records df))"
proof (cases "''date'' \<in> set (columns df)")
  case True
  then have "row_apply (columns df) ''date'' (to_datetime lib)
      = (\<lambda>r. set_cell ''date'' (to_datetime lib (cell_at r ''date'')) r)"
    by (simp add: row_apply_def fun_eq_iff)
  with True show ?thesis by (simp add: records_clean_date)
next
  case False
  then have "row_apply (columns df) ''date'' (to_datetime lib) = (\<lambda>r. r)"
    by (simp add: row_apply_def fun_eq_iff)
  with False show ?thesis by (simp add: records_clean_date)
qed

lemma records_standardize_games:
  "records (standardize_games lib df)
     = (let d0 = rename_columns game_column_mapping df; cols = columns d0
        in map (numeric_rows lib cols)
             (filter (\<lambda>r. ''date'' \<in> set cols \<longrightarrow> cell_at r ''date'' \<noteq> Null)
               (map (row_apply cols ''date'' (to_datetime lib))
                 (map (score_rows lib cols) (records (dedup_games d0))))))"
  by (simp add: standardize_games_def Let_def records_coerce_numeric' records_clean_date'
      records_coerce_score' columns_coerce_numeric columns_clean_date columns_coerce_score
      columns_dedup_games numeric_rows_def score_rows_def comp_def)


lemma standardize_games_origin:
  assumes "r' \<in> set (records (standardize_games lib df))"
  obtains r where "r \<in> set (records (rename_columns game_column_mapping df))"
    and "r' = numeric_rows lib (columns (rename_columns game_column_mapping df))
               (row_apply (columns (rename_columns game_column_mapping df)) ''date''
                  (to_datetime lib)
                  (score_rows lib (columns (rename_columns game_column_mapping df)) r))"
  using assms set_records_dedup_games[of "rename_columns game_column_mapping df"]
  unfolding records_standardize_games Let_def by auto

lemma numeric_cells_standardized:
  assumes "c \<in> set [''season'', ''week'', ''home_team_id'', ''away_team_id'']"
  shows "cell_at (numeric_rows lib cols (row_apply cols ''date'' g (score_rows lib cols r))) c
     = (if c \<in> set cols then to_numeric lib (cell_at r c) else cell_at r c)"
  using assms by (auto simp: numeric_rows_def score_rows_def cell_at_row_apply)

lemma records_clean_games_data:
  assumes "\<not> df_empty df"
  shows "records (clean_games_data lib df)
     = filter (\<lambda>r. \<not> (''week'' \<in> set (columns (standardize_games lib df))
                      \<and> (num_less (cell_at r ''week'') (Num 1)
                         \<or> num_less (Num 22) (cell_at r ''week''))))
         (filter (\<lambda>r. \<not> (''home_team_id'' \<in> set (columns (standardize_games lib df))
                      \<and> ''away_team_id'' \<in> set (columns (standardize_games lib df))
                      \<and> num_eq (cell_at r ''home_team_id'') (cell_at r ''away_team_id'')))
           (records (standardize_games lib df)))"
  by (simp add: clean_games_data_nonempty[OF assms] records_drop_invalid_weeks
      records_drop_self_play columns_drop_self_play)

lemma columns_clean_games_data:
  "\<not> df_empty df \<Longrightarrow> columns (clean_games_data lib df) = columns (standardize_games lib df)"
  by (simp add: clean_games_data_nonempty columns_drop_invalid_weeks columns_drop_self_play)

lemma num_eq_iff: "num_eq u v \<longleftrightarrow> (\<exists>a. u = Num a \<and> v = Num a)"
  by (auto simp: num_eq_def split: cell.splits)

lemma num_less_iff: "num_less u v \<longleftrightarrow> (\<exists>a b. u = Num a \<and> v = Num b \<and> a < b)"
  by (auto simp: num_less_def split: cell.splits)

text \<open>
  Claim C7, as the code has it. Take a raw games table with rows whose labels stay
  pairwise distinct under the renaming; the call then returns a table \<open>out\<close>. Let \<open>sd\<close>
  be the table as the business rules receive it. The rows of \<open>out\<close> are the rows of
  \<open>sd\<close> filtered twice: first the rows whose \<open>home_team_id\<close> and \<open>away_team_id\<close> are
  the same number are dropped, then the rows whose \<open>week\<close> is a number below 1 or above
  22 (each rule applies when the table has the columns it reads). A row with a missing
  value in these cells passes both filters. So no row of \<open>sd\<close> whose team identifiers are
  the same number, or whose week is a number such as 25, is a row of \<open>out\<close>. The cells
  the rules read are the raw cells after \<open>pd.to_numeric\<close>. The filters cannot raise.
\<close>

theorem business_rules_in_order:
  assumes "wf_frame games_df" and "\<not> df_empty games_df"
    and "distinct (map (rename_label game_column_mapping) (columns games_df))"
  shows "(let sd = standardize_games lib games_df;
              out = clean_games_data lib games_df;
              same_team = (\<lambda>r. ''home_team_id'' \<in> set (columns sd)
                              \<and> ''away_team_id'' \<in> set (columns sd)
                              \<and> (\<exists>a. cell_at r ''home_team_id'' = Num a
                                     \<and> cell_at r ''away_team_id'' = Num a));
              bad_week = (\<lambda>r. ''week'' \<in> set (columns sd)
                              \<and> (\<exists>w. cell_at r ''week'' = Num w \<and> (w < 1 \<or> 22 < w)))
          in call_clean_games_data lib games_df = Inr out
           \<and> columns out = columns sd
           \<and> records out = filter (\<lambda>r. \<not> bad_week r) (filter (\<lambda>r. \<not> same_team r) (records sd))
           \<and> (\<forall>r\<in>set (records sd). same_team r \<or> bad_week r \<longrightarrow> r \<notin> set (records out))
           \<and> (\<forall>r'\<in>set (records sd).
                 \<exists>r\<in>set (records (rename_columns game_column_mapping games_df)).
                   \<forall>c\<in>set [''week'', ''home_team_id'', ''away_team_id''].
                     c \<in> set (columns sd) \<longrightarrow> cell_at r' c = to_numeric lib (cell_at r c)))"
proof -
  let ?sd = "standardize_games lib games_df"
  let ?out = "clean_games_data lib games_df"
  let ?same = "\<lambda>r. ''home_team_id'' \<in> set (columns ?sd) \<and> ''away_team_id'' \<in> set (columns ?sd)
                  \<and> (\<exists>a. cell_at r ''home_team_id'' = Num a \<and> cell_at r ''away_team_id'' = Num a)"
  let ?bad = "\<lambda>r. ''week'' \<in> set (columns ?sd)
                  \<and> (\<exists>w. cell_at r ''week'' = Num w \<and> (w < 1 \<or> 22 < w))"
  have call: "call_clean_games_data lib games_df = Inr ?out"
    using assms(3) by (simp add: call_clean_games_data_def clean_games_data_raises_distinct)
  have cols: "columns ?out = columns ?sd"
    using assms(2) by (rule columns_clean_games_data)
  have recs: "records ?out = filter (\<lambda>r. \<not> ?bad r) (filter (\<lambda>r. \<not> ?same r) (records ?sd))"
    unfolding records_clean_games_data[OF assms(2)]
    by (rule filter_cong, rule filter_cong) (auto simp: num_eq_iff num_less_iff)
  have absent: "\<forall>r\<in>set (records ?sd). ?same r \<or> ?bad r \<longrightarrow> r \<notin> set (records ?out)"
    unfolding recs by auto
  have origin: "\<forall>r'\<in>set (records ?sd).
                 \<exists>r\<in>set (records (rename_columns game_column_mapping games_df)).
                   \<forall>c\<in>set [''week'', ''home_team_id'', ''away_team_id''].
                     c \<in> set (columns ?sd) \<longrightarrow> cell_at r' c = to_numeric lib (cell_at r c)"
  proof
    fix r' assume "r' \<in> set (records ?sd)"
    then obtain r where r: "r \<in> set (records (rename_columns game_column_mapping games_df))"
      and r': "r' = numeric_rows lib (columns (rename_columns game_column_mapping games_df))
               (row_apply (columns (rename_columns game_column_mapping games_df)) ''date''
                  (to_datetime lib)
                  (score_rows lib (columns (rename_columns game_column_mapping games_df)) r))"
      by (rule standardize_games_origin)
    have "\<forall>c\<in>set [''week'', ''home_team_id'', ''away_team_id''].
            c \<in> set (columns ?sd) \<longrightarrow> cell_at r' c = to_numeric lib (cell_at r c)"
      unfolding r' columns_standardize_games
      by (auto simp: numeric_cells_standardized)
    with r show "\<exists>r\<in>set (records (rename_columns game_column_mapping games_df)).
                   \<forall>c\<in>set [''week'', ''home_team_id'', ''away_team_id''].
                     c \<in> set (columns ?sd) \<longrightarrow> cell_at r' c = to_numeric lib (cell_at r c)"
      by blast
  qed
  from call cols recs absent origin show ?thesis unfolding Let_def by blast
qed


lemma raw_games_cleaned:
  "clean_games_data example_lib raw_games
     = \<lparr>columns = game_columns,
        records =
          [game_row (Num 1) (Num 1) (Day 739137) (Num 1) (Num 2) (Num 24) (Num 17) (Str ''Final''),
           week_nan_row]\<rparr>"
  by code_simp

lemma raw_games_standardized:
  "standardize_games example_lib raw_games
     = \<lparr>columns = game_columns,
        records =
          [game_row (Num 1) (Num 1) (Day 739137) (Num 1) (Num 2) (Num 24) (Num 17) (Str ''Final''),
           self_play_row, week_25_row, week_nan_row]\<rparr>"
  by code_simp

text \<open>
  In \<open>raw_games\<close> the game of team 3 against itself and the game of week 25 reach the
  business rules and are not in the cleaned table.
\<close>

theorem business_rules_in_order_witness:
  "wf_frame raw_games \<and> \<not> df_empty raw_games
   \<and> distinct (map (rename_label game_column_mapping) (columns raw_games))
   \<and> call_clean_games_data example_lib raw_games
       = Inr (clean_games_data example_lib raw_games)
   \<and> self_play_row \<in> set (records (standardize_games example_lib raw_games))
   \<and> cell_at self_play_row ''home_team_id'' = Num 3
   \<and> cell_at self_play_row ''away_team_id'' = Num 3
   \<and> self_play_row \<notin> set (records (clean_games_data example_lib raw_games))
   \<and> week_25_row \<in> set (records (standardize_games example_lib raw_games))
   \<and> cell_at week_25_row ''week'' = Num 25
   \<and> week_25_row \<notin> set (records (clean_games_data example_lib raw_games))"
proof -
  let ?sd = "standardize_games example_lib raw_games"
  have ne: "\<not> df_empty raw_games"
    by (simp add: df_empty_def raw_games_def raw_game_columns_def)
  have wf: "wf_frame raw_games" by code_simp
  have dist: "distinct (map (rename_label game_column_mapping) (columns raw_games))"
    by code_simp
  note C7 = business_rules_in_order[OF wf ne dist, of example_lib]
  from C7 have call: "call_clean_games_data example_lib raw_games
       = Inr (clean_games_data example_lib raw_games)"
    unfolding Let_def by blast
  have mem: "self_play_row \<in> set (records ?sd)" "week_25_row \<in> set (records ?sd)"
    by (simp_all add: raw_games_standardized)
  have cols: "''home_team_id'' \<in> set (columns ?sd)" "''away_team_id'' \<in> set (columns ?sd)"
    "''week'' \<in> set (columns ?sd)"
    by (simp_all add: raw_games_standardized game_columns_def)
  have cells: "cell_at self_play_row ''home_team_id'' = Num 3"
    "cell_at self_play_row ''away_team_id'' = Num 3"
    "cell_at week_25_row ''week'' = Num 25"
    by (simp_all add: self_play_row_def week_25_row_def game_row_def cell_at_def)
  from C7
  have absent: "\<forall>r\<in>set (records ?sd).
      (''home_team_id'' \<in> set (columns ?sd) \<and> ''away_team_id'' \<in> set (columns ?sd)
        \<and> (\<exists>a. cell_at r ''home_team_id'' = Num a \<and> cell_at r ''away_team_id'' = Num a))
      \<or> (''week'' \<in> set (columns ?sd)
        \<and> (\<exists>w. cell_at r ''week'' = Num w \<and> (w < 1 \<or> 22 < w)))
      \<longrightarrow> r \<notin> set (records (clean_games_data example_lib raw_games))"
    unfolding Let_def by blast
  have a1: "self_play_row \<notin> set (records (clean_games_data example_lib raw_games))"
    using absent mem(1) cols cells by blast
  have "(22::real) < 25" by simp
  with absent mem(2) cols cells
  have a2: "week_25_row \<notin> set (records (clean_games_data example_lib raw_games))"
    by blast
  from wf ne dist call mem cells a1 a2 show ?thesis by blast
qed

text \<open>
  The claim as stated fails where a cell does not parse. The first game of
  \<open>unparsed_games\<close> has the text \<open>TBD\<close> in both team columns and the second has it
  as its week. Both texts become missing values, every comparison with a missing value is
  false, and both games are in the cleaned table: one with equal raw team identifiers,
  one with a week that is not in the range 1 to 22.
\<close>

theorem unparsed_cells_counterexample:
  "map (\<lambda>r. (cell_at r ''HomeTeamID'', cell_at r ''AwayTeamID'', cell_at r ''Week''))
       (records unparsed_games)
     = [(Str ''TBD'', Str ''TBD'', Num 1), (Num 1, Num 2, Str ''TBD'')]
   \<and> call_clean_games_data example_lib unparsed_games
     = Inr \<lparr>columns = game_columns,
            records =
              [game_row (Num 6) (Num 1) (Day 739137) Null Null (Num 0) (Num 0)
                 (Str ''Scheduled''),
               game_row (Num 7) Null (Day 739137) (Num 1) (Num 2) (Num 0) (Num 0)
                 (Str ''Scheduled'')]\<rparr>"
  by code_simp


text \<open>
  Claim C3, as the code has it. In the cleaned table the cells of \<open>season\<close>, \<open>week\<close>,
  \<open>home_team_id\<close> and \<open>away_team_id\<close> are the raw cells after \<open>pd.to_numeric\<close> with
  \<open>errors='coerce'\<close>, under which a text that does not parse becomes NaN, never 0. A row
  is not dropped for such a NaN: a row that reaches the business rules with a missing
  week (or a week from 1 to 22) and with a missing team identifier (or two different
  ones) is a row of the cleaned table, since comparisons with NaN are false.
\<close>

theorem unparsable_number_is_nan_and_row_stays:
  assumes "\<not> df_empty games_df"
  shows "(let raw = rename_columns game_column_mapping games_df;
              sd = standardize_games lib games_df;
              out = clean_games_data lib games_df
          in (\<forall>r'\<in>set (records out). \<exists>r\<in>set (records raw).
                \<forall>c\<in>set [''season'', ''week'', ''home_team_id'', ''away_team_id''].
                  c \<in> set (columns raw) \<longrightarrow> cell_at r' c = to_numeric lib (cell_at r c))
           \<and> (\<forall>s. str_to_num lib s = None \<longrightarrow> to_numeric lib (Str s) = Null)
           \<and> (\<forall>r\<in>set (records sd).
                 (cell_at r ''week'' = Null
                    \<or> (\<exists>w. cell_at r ''week'' = Num w \<and> 1 \<le> w \<and> w \<le> 22))
               \<and> (cell_at r ''home_team_id'' = Null \<or> cell_at r ''away_team_id'' = Null
                    \<or> (\<exists>a b. cell_at r ''home_team_id'' = Num a
                           \<and> cell_at r ''away_team_id'' = Num b \<and> a \<noteq> b))
               \<longrightarrow> r \<in> set (records out)))"
proof -
  let ?raw = "rename_columns game_column_mapping games_df"
  let ?sd = "standardize_games lib games_df"
  let ?out = "clean_games_data lib games_df"
  have sub: "set (records ?out) \<subseteq> set (records ?sd)"
    unfolding records_clean_games_data[OF assms] by auto
  have origin: "\<forall>r'\<in>set (records ?out). \<exists>r\<in>set (records ?raw).
                \<forall>c\<in>set [''season'', ''week'', ''home_team_id'', ''away_team_id''].
                  c \<in> set (columns ?raw) \<longrightarrow> cell_at r' c = to_numeric lib (cell_at r c)"
  proof
    fix r' assume "r' \<in> set (records ?out)"
    with sub have "r' \<in> set (records ?sd)" by blast
    then obtain r where r: "r \<in> set (records ?raw)"
      and r': "r' = numeric_rows lib (columns ?raw)
               (row_apply (columns ?raw) ''date'' (to_datetime lib)
                  (score_rows lib (columns ?raw) r))"
      by (rule standardize_games_origin)
    have "\<forall>c\<in>set [''season'', ''week'', ''home_team_id'', ''away_team_id''].
            c \<in> set (columns ?raw) \<longrightarrow> cell_at r' c = to_numeric lib (cell_at r c)"
      unfolding r' by (auto simp: numeric_cells_standardized)
    with r show "\<exists>r\<in>set (records ?raw).
                \<forall>c\<in>set [''season'', ''week'', ''home_team_id'', ''away_team_id''].
                  c \<in> set (columns ?raw) \<longrightarrow> cell_at r' c = to_numeric lib (cell_at r c)"
      by blast
  qed
  have nan: "\<forall>s. str_to_num lib s = None \<longrightarrow> to_numeric lib (Str s) = Null"
    by (simp add: to_numeric_def)
  have stays: "\<forall>r\<in>set (records ?sd).
                 (cell_at r ''week'' = Null
                    \<or> (\<exists>w. cell_at r ''week'' = Num w \<and> 1 \<le> w \<and> w \<le> 22))
               \<and> (cell_at r ''home_team_id'' = Null \<or> cell_at r ''away_team_id'' = Null
                    \<or> (\<exists>a b. cell_at r ''home_team_id'' = Num a
                           \<and> cell_at r ''away_team_id'' = Num b \<and> a \<noteq> b))
               \<longrightarrow> r \<in> set (records ?out)"
    unfolding records_clean_games_data[OF assms]
    by (auto simp: num_eq_iff num_less_iff)
  from origin nan stays show ?thesis unfolding Let_def by blast
qed

text \<open>
  The claim as stated fails: the fourth game of \<open>raw_games\<close> has the week \<open>TBD\<close>,
  which does not parse. Its row is in the cleaned table with a missing week, and the
  feature engine returns it as well: the feature-enriched table has the games 1 and 4.
\<close>

theorem nan_week_row_counterexample:
  "cell_at (records raw_games ! 3) ''Week'' = Str ''TBD''
   \<and> str_to_num example_lib ''TBD'' = None
   \<and> week_nan_row \<in> set (records (clean_games_data example_lib raw_games))
   \<and> cell_at week_nan_row ''week'' = Null
   \<and> \<not> isl (create_game_features example_lib (clean_games_data example_lib raw_games))
   \<and> map (\<lambda>r. (cell_at r ''game_id'', cell_at r ''week''))
       (records (projr (create_game_features example_lib
                          (clean_games_data example_lib raw_games))))
       = [(Num 1, Num 1), (Num 4, Null)]"
  by code_simp

text \<open>The same row meets the hypotheses: missing week, teams 7 and 8, kept.\<close>

theorem unparsable_number_is_nan_and_row_stays_witness:
  "\<not> df_empty raw_games
   \<and> str_to_num example_lib ''TBD'' = None
   \<and> to_numeric example_lib (Str ''TBD'') = Null
   \<and> week_nan_row \<in> set (records (standardize_games example_lib raw_games))
   \<and> cell_at week_nan_row ''week'' = Null
   \<and> cell_at week_nan_row ''home_team_id'' = Num 7
   \<and> cell_at week_nan_row ''away_team_id'' = Num 8
   \<and> week_nan_row \<in> set (records (clean_games_data example_lib raw_games))"
proof -
  let ?sd = "standardize_games example_lib raw_games"
  let ?out = "clean_games_data example_lib raw_games"
  have ne: "\<not> df_empty raw_games"
    by (simp add: df_empty_def raw_games_def raw_game_columns_def)
  note C3 = unparsable_number_is_nan_and_row_stays[OF ne, of example_lib, unfolded Let_def]
  have tbd: "str_to_num example_lib ''TBD'' = None"
    by (simp add: example_lib_def)
  with C3 have nan: "to_numeric example_lib (Str ''TBD'') = Null" by blast
  have mem: "week_nan_row \<in> set (records ?sd)"
    by (simp add: raw_games_standardized)
  have cells: "cell_at week_nan_row ''week'' = Null"
    "cell_at week_nan_row ''home_team_id'' = Num 7"
    "cell_at week_nan_row ''away_team_id'' = Num 8"
    by (simp_all add: week_nan_row_def game_row_def cell_at_def)
  have "(7::real) \<noteq> 8" by simp
  with C3 mem cells have "week_nan_row \<in> set (records ?out)" by blast
  with ne tbd nan mem cells show ?thesis by blast
qed

section \<open>Cleaning a cleaned table\<close>

lemma keys_set_cell:
  "map fst (set_cell c v r) = (if c \<in> set (map fst r) then map fst r else map fst r @ [c])"
proof -
  have "map fst (map (\<lambda>(k, x). if k = c then (k, v) else (k, x)) r) = map fst r"
    by (induction r) auto
  then show ?thesis by (simp add: set_cell_def del: set_map)
qed

lemma entries_set_cell:
  "set (set_cell c v r)
     = (if c \<in> set (map fst r) then {p \<in> set r. fst p \<noteq> c} \<union> {(c, v)} else set r \<union> {(c, v)})"
proof (cases "c \<in> set (map fst r)")
  case True
  then obtain x where "(c, x) \<in> set r" by auto
  then have "set (map (\<lambda>(k, x). if k = c then (k, v) else (k, x)) r)
      = {p \<in> set r. fst p \<noteq> c} \<union> {(c, v)}"
    by (force simp: image_iff split: if_splits)
  with True show ?thesis by (simp add: set_cell_def del: set_map)
next
  case False
  then show ?thesis by (simp add: set_cell_def del: set_map)
qed

lemma settled_iff:
  "settled c r \<longleftrightarrow> c \<in> set (map fst r) \<and> (\<forall>p\<in>set r. fst p = c \<longrightarrow> snd p = cell_at r c)"
  by (auto simp: settled_def list_all_iff)

lemma settled_set_cell_same: "settled c (set_cell c v r)"
  unfolding settled_iff keys_set_cell entries_set_cell cell_at_set_cell
  by auto

lemma settled_set_cell_other:
  assumes "settled c r" "c' \<noteq> c"
  shows "settled c (set_cell c' v r)"
  using assms unfolding settled_iff keys_set_cell entries_set_cell cell_at_set_cell
  by auto

lemma set_cell_settled_id:
  assumes "settled c r"
  shows "set_cell c (cell_at r c) r = r"
proof -
  from assms have in_keys: "c \<in> set (map fst r)"
    and all: "\<forall>(k, x)\<in>set r. k = c \<longrightarrow> x = cell_at r c"
    by (auto simp: settled_iff)
  have "map (\<lambda>(k, x). if k = c then (k, cell_at r c) else (k, x)) r = r"
    using all by (intro map_idI) auto
  with in_keys show ?thesis by (simp add: set_cell_def)
qed

lemma frame_eqI: "columns a = columns b \<Longrightarrow> records a = records b \<Longrightarrow> a = (b::frame)"
  by simp

lemma apply_col_id:
  assumes "c \<in> set (columns df)"
    and "list_all (\<lambda>r. settled c r \<and> g (cell_at r c) = cell_at r c) (records df)"
  shows "apply_col c g df = df"
proof (rule frame_eqI)
  show "columns (apply_col c g df) = columns df"
    using assms(1) by (rule columns_apply_col_present)
  have "map (\<lambda>r. set_cell c (g (cell_at r c)) r) (records df) = records df"
    using assms(2) by (intro map_idI) (auto simp: list_all_iff set_cell_settled_id)
  then show "records (apply_col c g df) = records df"
    by (simp add: records_apply_col)
qed

lemma step_guarded:
  "fill_unknown c = guarded c (fillna (Str ''Unknown''))"
  "strip_text lib c = guarded c (\<lambda>v. Str (str_strip (astype_str lib v)))"
  "coerce_score lib c = guarded c (\<lambda>v. fillna (Num 0) (to_numeric lib v))"
  "coerce_numeric lib c = guarded c (to_numeric lib)"
  by (simp_all add: fun_eq_iff guarded_def fill_unknown_def strip_text_def coerce_score_def
      coerce_numeric_def)

lemma columns_guarded: "columns (guarded c g df) = columns df"
  by (simp add: guarded_def columns_apply_col_present)

lemma all_fixed_guarded_same:
  assumes "\<And>v. P (g v)"
  shows "all_fixed c P (guarded c g df)"
  using assms
  by (auto simp: all_fixed_def guarded_def records_apply_col list_all_iff
      settled_set_cell_same cell_at_set_cell columns_apply_col_present)

lemma all_fixed_guarded_again:
  assumes "all_fixed c Q df" and "\<And>v. Q v \<Longrightarrow> P (g v)"
  shows "all_fixed c P (guarded c g df)"
  using assms
  by (auto simp: all_fixed_def guarded_def records_apply_col list_all_iff
      settled_set_cell_same cell_at_set_cell columns_apply_col_present)

lemma all_fixed_guarded_other:
  assumes "all_fixed c P df" and "c' \<noteq> c"
  shows "all_fixed c P (guarded c' g df)"
  using assms
  by (auto simp: all_fixed_def guarded_def records_apply_col list_all_iff
      settled_set_cell_other cell_at_set_cell columns_apply_col_present)

lemma all_fixed_select_rows:
  assumes "all_fixed c P df"
  shows "all_fixed c P (select_rows K df)"
  using assms by (auto simp: all_fixed_def select_rows_def list_all_iff)

lemma all_fixed_dropna:
  assumes "all_fixed c P df"
  shows "all_fixed c (\<lambda>v. P v \<and> v \<noteq> Null) (dropna c df)"
  using assms by (auto simp: all_fixed_def dropna_def select_rows_def list_all_iff)

lemma all_fixed_drop_duplicates:
  assumes "all_fixed c P df"
  shows "all_fixed c P (drop_duplicates c' df)"
  using assms set_keep_first[of "\<lambda>r. map dup_key (cells_at r c')" "[]" "records df"]
  by (auto simp: all_fixed_def drop_duplicates_def list_all_iff)

lemma all_fixed_weaken:
  assumes "all_fixed c P df" and "\<And>v. P v \<Longrightarrow> Q v"
  shows "all_fixed c Q df"
  using assms by (auto simp: all_fixed_def list_all_iff)

lemma guarded_id:
  assumes "all_fixed c P df" and "\<And>v. P v \<Longrightarrow> g v = v"
  shows "guarded c g df = df"
proof (cases "c \<in> set (columns df)")
  case True
  with assms have "list_all (\<lambda>r. settled c r \<and> g (cell_at r c) = cell_at r c) (records df)"
    by (auto simp: all_fixed_def list_all_iff)
  with True show ?thesis by (simp add: guarded_def apply_col_id)
next
  case False
  then show ?thesis by (simp add: guarded_def)
qed

lemma score_value:
  "is_num (fillna (Num 0) (to_numeric lib v))"
  "is_num v \<Longrightarrow> fillna (Num 0) (to_numeric lib v) = v"
  by (auto simp: is_num_def fillna_def to_numeric_def split: cell.splits option.splits)

lemma numeric_value:
  "numeric_cell (to_numeric lib v)"
  "numeric_cell v \<Longrightarrow> to_numeric lib v = v"
  by (auto simp: numeric_cell_def to_numeric_def split: cell.splits option.splits)

lemma date_value:
  "is_day (to_datetime lib v) \<or> to_datetime lib v = Null"
  "is_day v \<Longrightarrow> to_datetime lib v = v"
  by (auto simp: is_day_def to_datetime_def split: cell.splits option.splits)

lemma clean_date_guarded:
  "clean_date lib df
     = (if ''date'' \<in> set (columns df)
        then dropna ''date'' (guarded ''date'' (to_datetime lib) df) else df)"
  by (simp add: clean_date_def guarded_def)

lemma columns_dropna: "columns (dropna c df) = columns df"
  by (simp add: dropna_def columns_select_rows)

lemma all_fixed_absent: "c \<notin> set (columns df) \<Longrightarrow> all_fixed c P df"
  by (simp add: all_fixed_def)

lemma all_fixed_clean_date_same: "all_fixed ''date'' is_day (clean_date lib df)"
proof (cases "''date'' \<in> set (columns df)")
  case True
  have "all_fixed ''date'' (\<lambda>v. is_day v \<or> v = Null) (guarded ''date'' (to_datetime lib) df)"
    by (rule all_fixed_guarded_same) (rule date_value(1))
  then have "all_fixed ''date'' (\<lambda>v. (is_day v \<or> v = Null) \<and> v \<noteq> Null)
      (dropna ''date'' (guarded ''date'' (to_datetime lib) df))"
    by (rule all_fixed_dropna)
  then have "all_fixed ''date'' is_day (dropna ''date'' (guarded ''date'' (to_datetime lib) df))"
    by (rule all_fixed_weaken) auto
  with True show ?thesis by (simp add: clean_date_guarded)
next
  case False
  then show ?thesis by (simp add: clean_date_guarded all_fixed_absent)
qed

lemma all_fixed_clean_date_other:
  assumes "all_fixed c P df" and "c \<noteq> ''date''"
  shows "all_fixed c P (clean_date lib df)"
  using assms
  by (auto simp: clean_date_guarded dropna_def
      intro!: all_fixed_select_rows all_fixed_guarded_other)

lemma all_fixed_dedup_games: "all_fixed c P df \<Longrightarrow> all_fixed c P (dedup_games df)"
  by (simp add: dedup_games_def all_fixed_drop_duplicates)

lemma all_fixed_drop_self_play: "all_fixed c P df \<Longrightarrow> all_fixed c P (drop_self_play df)"
  by (simp add: drop_self_play_def Let_def all_fixed_select_rows)

lemma all_fixed_drop_invalid_weeks:
  "all_fixed c P df \<Longrightarrow> all_fixed c P (drop_invalid_weeks df)"
  by (simp add: drop_invalid_weeks_def Let_def all_fixed_select_rows)

text \<open>The cells of the standardized table.\<close>

lemma standardize_games_fixed:
  "all_fixed ''home_score'' is_num (standardize_games lib df)"
  "all_fixed ''away_score'' is_num (standardize_games lib df)"
  "all_fixed ''date'' is_day (standardize_games lib df)"
  "all_fixed ''season'' numeric_cell (standardize_games lib df)"
  "all_fixed ''week'' numeric_cell (standardize_games lib df)"
  "all_fixed ''home_team_id'' numeric_cell (standardize_games lib df)"
  "all_fixed ''away_team_id'' numeric_cell (standardize_games lib df)"
  unfolding standardize_games_def Let_def step_guarded fold_simps
  by (intro all_fixed_guarded_other all_fixed_guarded_same all_fixed_clean_date_other
      all_fixed_clean_date_same score_value numeric_value; simp)+

subsection \<open>Deduplication\<close>

lemma keep_first_distinct:
  "distinct (map key (keep_first key seen xs))
     \<and> set (map key (keep_first key seen xs)) \<inter> set seen = {}"
proof (induction xs arbitrary: seen)
  case Nil
  then show ?case by simp
next
  case (Cons x xs)
  show ?case
  proof (cases "key x \<in> set seen")
    case True
    with Cons.IH[of seen] show ?thesis by simp
  next
    case False
    with Cons.IH[of "key x # seen"] show ?thesis by auto
  qed
qed

lemma keep_first_id:
  "distinct (map key xs) \<Longrightarrow> set (map key xs) \<inter> set seen = {} \<Longrightarrow> keep_first key seen xs = xs"
  by (induction xs arbitrary: seen) auto

lemma cells_at_set_cell_other: "c' \<noteq> c \<Longrightarrow> cells_at (set_cell c' v r) c = cells_at r c"
proof -
  assume ne: "c' \<noteq> c"
  have "filter (\<lambda>(k, x). k = c) (map (\<lambda>(k, x). if k = c' then (k, v) else (k, x)) r)
      = filter (\<lambda>(k, x). k = c) r"
    using ne by (induction r) (auto split: if_splits)
  with ne show ?thesis by (simp add: cells_at_def set_cell_def)
qed

lemma key_col_guarded: "c' \<noteq> c \<Longrightarrow> key_col c (guarded c' g df) = key_col c df"
  by (simp add: key_col_def guarded_def records_apply_col cells_at_set_cell_other comp_def)

lemma distinct_key_col_select_rows:
  "distinct (key_col c df) \<Longrightarrow> distinct (key_col c (select_rows K df))"
  by (simp add: key_col_def select_rows_def distinct_map_filter)

lemma distinct_key_col_drop_duplicates: "distinct (key_col c (drop_duplicates c df))"
  using keep_first_distinct[of "\<lambda>r. map dup_key (cells_at r c)" "[]" "records df"]
  by (simp add: key_col_def drop_duplicates_def)

text \<open>The key of a row gives back the cell that \<open>cell_at\<close> reads.\<close>

lemma cell_at_cells_at:
  "cell_at r c = (case cells_at r c of [] \<Rightarrow> Null | v # vs \<Rightarrow> v)"
  by (induction r) (auto simp: cell_at_def cells_at_def)

lemma key_cell_cells_at:
  "key_cell (map dup_key (cells_at r c)) = dup_key (cell_at r c)"
  by (simp add: key_cell_def cell_at_cells_at dup_key_def split: list.splits)

lemma drop_duplicates_id: "distinct (key_col c df) \<Longrightarrow> drop_duplicates c df = df"
  by (simp add: key_col_def drop_duplicates_def keep_first_id)

lemma distinct_key_col_clean_date:
  "distinct (key_col ''game_id'' df) \<Longrightarrow> distinct (key_col ''game_id'' (clean_date lib df))"
  by (simp add: clean_date_guarded dropna_def distinct_key_col_select_rows key_col_guarded)

lemma standardize_games_distinct:
  assumes "''game_id'' \<in> set (columns (standardize_games lib df))"
  shows "distinct (key_col ''game_id'' (standardize_games lib df))"
proof -
  let ?d0 = "rename_columns game_column_mapping df"
  from assms have "''game_id'' \<in> set (columns ?d0)"
    by (simp add: columns_standardize_games)
  then have "distinct (key_col ''game_id'' (dedup_games ?d0))"
    by (simp add: dedup_games_def distinct_key_col_drop_duplicates)
  then show ?thesis
    unfolding standardize_games_def Let_def step_guarded fold_simps
    by (simp add: key_col_guarded distinct_key_col_clean_date)
qed

subsection \<open>Renaming\<close>

lemma rename_columns_id:
  assumes "set (columns df) \<inter> set (map fst m) = {}"
  shows "rename_columns m df = df"
proof -
  from assms have "filter (\<lambda>(old_col, new_col). old_col \<in> set (columns df)) m = []"
    by (force simp: filter_empty_conv)
  then show ?thesis
    by (simp add: rename_columns_def Let_def rename_label_def map_idI)
qed

lemma game_renamed_no_old_name:
  "rename_label game_column_mapping c \<notin> set (map fst game_column_mapping)"
  by (simp add: rename_label_def game_column_mapping_def)

lemma team_renamed_no_old_name:
  "rename_label team_column_mapping c \<notin> set (map fst team_column_mapping)"
  by (simp add: rename_label_def team_column_mapping_def)

subsection \<open>The event cleaner on its own output\<close>

lemma dropna_id:
  assumes "all_fixed c P df" and "c \<in> set (columns df)" and "\<And>v. P v \<Longrightarrow> v \<noteq> Null"
  shows "dropna c df = df"
proof -
  from assms have "\<forall>r\<in>set (records df). cell_at r c \<noteq> Null"
    by (auto simp: all_fixed_def list_all_iff)
  then have "filter (\<lambda>r. cell_at r c \<noteq> Null) (records df) = records df"
    by (simp add: filter_id_conv)
  then show ?thesis by (simp add: dropna_def select_rows_def)
qed

lemma clean_date_id:
  assumes "all_fixed ''date'' is_day df"
  shows "clean_date lib df = df"
proof (cases "''date'' \<in> set (columns df)")
  case True
  have g: "guarded ''date'' (to_datetime lib) df = df"
    using assms by (rule guarded_id) (rule date_value(2))
  have "dropna ''date'' df = df"
    using assms True by (rule dropna_id) (auto simp: is_day_def)
  with True g show ?thesis by (simp add: clean_date_guarded)
next
  case False
  then show ?thesis by (simp add: clean_date_guarded)
qed

lemma standardize_games_id:
  assumes "set (columns F) \<inter> set (map fst game_column_mapping) = {}"
    and "''game_id'' \<in> set (columns F) \<Longrightarrow> distinct (key_col ''game_id'' F)"
    and "all_fixed ''home_score'' is_num F"
    and "all_fixed ''away_score'' is_num F"
    and "all_fixed ''date'' is_day F"
    and "all_fixed ''season'' numeric_cell F"
    and "all_fixed ''week'' numeric_cell F"
    and "all_fixed ''home_team_id'' numeric_cell F"
    and "all_fixed ''away_team_id'' numeric_cell F"
  shows "standardize_games lib F = F"
proof -
  have 1: "rename_columns game_column_mapping F = F"
    using assms(1) by (rule rename_columns_id)
  have 2: "dedup_games F = F"
    using assms(2) by (auto simp: dedup_games_def drop_duplicates_id)
  have 3: "coerce_score lib ''home_score'' F = F" "coerce_score lib ''away_score'' F = F"
    unfolding step_guarded
    by (rule guarded_id[OF assms(3)], erule score_value(2),
        rule guarded_id[OF assms(4)], erule score_value(2))
  have 4: "clean_date lib F = F"
    using assms(5) by (rule clean_date_id)
  have 5: "coerce_numeric lib ''season'' F = F" "coerce_numeric lib ''week'' F = F"
    "coerce_numeric lib ''home_team_id'' F = F" "coerce_numeric lib ''away_team_id'' F = F"
    unfolding step_guarded
    by (rule guarded_id[OF assms(6)], erule numeric_value(2),
        rule guarded_id[OF assms(7)], erule numeric_value(2),
        rule guarded_id[OF assms(8)], erule numeric_value(2),
        rule guarded_id[OF assms(9)], erule numeric_value(2))
  show ?thesis
    by (simp add: standardize_games_def Let_def 1 2 3 4 5)
qed

lemma filter_filter_same: "filter P (filter Q (filter P xs)) = filter Q (filter P xs)"
  by (induction xs) auto

lemma clean_games_data_fixpoint:
  "clean_games_data lib (clean_games_data lib df)
     = (if records (clean_games_data lib df) = [] then empty_frame
        else clean_games_data lib df)"
proof (cases "df_empty df")
  case True
  then show ?thesis
    by (simp add: clean_games_data_def empty_frame_def df_empty_def)
next
  case ne: False
  let ?sd = "standardize_games lib df"
  let ?out = "clean_games_data lib df"
  have out: "?out = drop_invalid_weeks (drop_self_play ?sd)"
    using ne by (rule clean_games_data_nonempty)
  have cols: "columns ?out = map (rename_label game_column_mapping) (columns df)"
    by (simp add: columns_clean_games_data[OF ne] columns_standardize_games
        columns_rename_columns')
  show ?thesis
  proof (cases "records ?out = []")
    case True
    then show ?thesis by (simp add: clean_games_data_def df_empty_def)
  next
    case False
    from ne have "columns df \<noteq> []" by (simp add: df_empty_def)
    with cols False have ne': "\<not> df_empty ?out" by (simp add: df_empty_def)
    have no_old: "set (columns ?out) \<inter> set (map fst game_column_mapping) = {}"
      unfolding cols using game_renamed_no_old_name by auto
    have dist: "distinct (key_col ''game_id'' ?out)" if "''game_id'' \<in> set (columns ?out)"
    proof -
      from that have "''game_id'' \<in> set (columns ?sd)"
        by (simp add: columns_clean_games_data[OF ne])
      then have "distinct (key_col ''game_id'' ?sd)" by (rule standardize_games_distinct)
      then show ?thesis
        unfolding out drop_invalid_weeks_def drop_self_play_def Let_def
        by (auto intro!: distinct_key_col_select_rows)
    qed
    have fixed: "all_fixed ''home_score'' is_num ?out" "all_fixed ''away_score'' is_num ?out"
      "all_fixed ''date'' is_day ?out" "all_fixed ''season'' numeric_cell ?out"
      "all_fixed ''week'' numeric_cell ?out" "all_fixed ''home_team_id'' numeric_cell ?out"
      "all_fixed ''away_team_id'' numeric_cell ?out"
      unfolding out
      by (intro all_fixed_drop_invalid_weeks all_fixed_drop_self_play standardize_games_fixed)+
    have sd': "standardize_games lib ?out = ?out"
      using no_old dist fixed by (rule standardize_games_id)
    have r_out: "records ?out
      = filter (\<lambda>r. \<not> (''week'' \<in> set (columns ?out)
                      \<and> (num_less (cell_at r ''week'') (Num 1)
                         \<or> num_less (Num 22) (cell_at r ''week''))))
         (filter (\<lambda>r. \<not> (''home_team_id'' \<in> set (columns ?out)
                      \<and> ''away_team_id'' \<in> set (columns ?out)
                      \<and> num_eq (cell_at r ''home_team_id'') (cell_at r ''away_team_id'')))
           (records ?sd))"
      by (simp add: records_clean_games_data[OF ne] columns_clean_games_data[OF ne])
    have sat: "\<forall>r\<in>set (records ?out).
        \<not> (''week'' \<in> set (columns ?out)
            \<and> (num_less (cell_at r ''week'') (Num 1) \<or> num_less (Num 22) (cell_at r ''week'')))
      \<and> \<not> (''home_team_id'' \<in> set (columns ?out) \<and> ''away_team_id'' \<in> set (columns ?out)
            \<and> num_eq (cell_at r ''home_team_id'') (cell_at r ''away_team_id''))"
      by (subst r_out) auto
    have self': "drop_self_play ?out = ?out"
    proof (rule frame_eqI)
      show "columns (drop_self_play ?out) = columns ?out" by (rule columns_drop_self_play)
      show "records (drop_self_play ?out) = records ?out"
        unfolding records_drop_self_play filter_id_conv using sat by blast
    qed
    have week': "drop_invalid_weeks ?out = ?out"
    proof (rule frame_eqI)
      show "columns (drop_invalid_weeks ?out) = columns ?out"
        by (rule columns_drop_invalid_weeks)
      show "records (drop_invalid_weeks ?out) = records ?out"
        unfolding records_drop_invalid_weeks filter_id_conv using sat by blast
    qed
    from ne' sd' self' week' False show ?thesis
      by (simp add: clean_games_data_def[of lib ?out] Let_def)
  qed
qed

subsection \<open>The entity cleaner on its own output\<close>

lemma dropWhile_fix: "xs = [] \<or> \<not> P (hd xs) \<Longrightarrow> dropWhile P xs = xs"
  by (cases xs) auto

lemma last_dropWhile: "dropWhile P xs \<noteq> [] \<Longrightarrow> last (dropWhile P xs) = last xs"
  by (induction xs) (auto split: if_splits)

lemma str_strip_idem: "str_strip (str_strip s) = str_strip s"
proof -
  define t where "t = dropWhile is_space s"
  define u where "u = dropWhile is_space (rev t)"
  have s: "str_strip s = rev u" by (simp add: str_strip_def t_def u_def)
  have t_hd: "t = [] \<or> \<not> is_space (hd t)"
    unfolding t_def using hd_dropWhile[of is_space s] by auto
  have u_hd: "u = [] \<or> \<not> is_space (hd u)"
    unfolding u_def using hd_dropWhile[of is_space "rev t"] by auto
  have ru_hd: "rev u = [] \<or> \<not> is_space (hd (rev u))"
  proof (cases "u = []")
    case True
    then show ?thesis by simp
  next
    case False
    then have "last u = last (rev t)" unfolding u_def by (rule last_dropWhile)
    moreover from False have "t \<noteq> []" unfolding u_def by auto
    ultimately have "hd (rev u) = hd t" using False by (simp add: hd_rev last_rev)
    with t_hd \<open>t \<noteq> []\<close> show ?thesis by simp
  qed
  have 1: "dropWhile is_space (rev u) = rev u" using ru_hd by (rule dropWhile_fix)
  have 2: "dropWhile is_space u = u" using u_hd by (rule dropWhile_fix)
  show ?thesis unfolding s by (simp add: str_strip_def 1 2)
qed

lemma text_value:
  "is_stripped (Str (str_strip (astype_str lib v)))"
  "is_stripped v \<Longrightarrow> Str (str_strip (astype_str lib v)) = v"
  "is_stripped v \<Longrightarrow> fillna (Str ''Unknown'') v = v"
  by (auto simp: is_stripped_def str_strip_idem astype_str_def fillna_def split: cell.splits)

lemma valid_conference_stripped: "valid_conference v \<Longrightarrow> is_stripped v"
  by (auto simp: valid_conference_def is_stripped_def str_strip_def is_space_def)

lemma team_id_value:
  "numeric_cell v \<Longrightarrow> v \<noteq> Null \<Longrightarrow> is_int (astype_int v)"
  "is_int v \<Longrightarrow> to_numeric lib v = v"
  "is_int v \<Longrightarrow> astype_int v = v"
  "is_int v \<Longrightarrow> v \<noteq> Null"
  "is_int v \<Longrightarrow> dup_key v = v"
  by (auto simp: is_int_def numeric_cell_def astype_int_def to_numeric_def dup_key_def
      split: cell.splits)

lemma all_fixed_assign_other:
  assumes "all_fixed c P df" and "c' \<noteq> c"
  shows "all_fixed c P (assign c' f df)"
  using assms
  by (auto simp: all_fixed_def records_assign columns_assign list_all_iff
      settled_set_cell_other cell_at_set_cell split: if_splits)

lemma all_fixed_validate_other:
  assumes "all_fixed c P df" and "c \<noteq> ''conference''"
  shows "all_fixed c P (validate_conference df)"
  using assms by (auto simp: validate_conference_def Let_def intro: all_fixed_assign_other)

lemma all_fixed_validate_same:
  assumes "all_fixed ''conference'' Q df"
  shows "all_fixed ''conference'' valid_conference (validate_conference df)"
proof (cases "''conference'' \<in> set (columns df)")
  case False
  then show ?thesis by (simp add: validate_conference_def all_fixed_absent)
next
  case True
  let ?invalid = "\<lambda>r. cell_at r ''conference'' \<notin> set [Str ''AFC'', Str ''NFC'', Str ''Unknown'']"
  show ?thesis
  proof (cases "list_ex ?invalid (records df)")
    case ex: True
    have "all_fixed ''conference'' valid_conference
        (assign ''conference''
           (\<lambda>r. if ?invalid r then Str ''Unknown'' else cell_at r ''conference'') df)"
      by (auto simp: all_fixed_def records_assign list_all_iff settled_set_cell_same
          cell_at_set_cell valid_conference_def)
    with True ex show ?thesis by (simp add: validate_conference_def Let_def)
  next
    case no: False
    then have "\<forall>r\<in>set (records df). valid_conference (cell_at r ''conference'')"
      by (auto simp: list_ex_iff valid_conference_def)
    with assms True have "all_fixed ''conference'' valid_conference df"
      by (auto simp: all_fixed_def list_all_iff)
    with True no show ?thesis by (simp add: validate_conference_def Let_def)
  qed
qed

lemma validate_conference_id:
  assumes "all_fixed ''conference'' valid_conference df"
  shows "validate_conference df = df"
proof (cases "''conference'' \<in> set (columns df)")
  case False
  then show ?thesis by (simp add: validate_conference_def)
next
  case True
  with assms have "\<forall>r\<in>set (records df). valid_conference (cell_at r ''conference'')"
    by (auto simp: all_fixed_def list_all_iff)
  then have "\<not> list_ex (\<lambda>r. cell_at r ''conference''
      \<notin> set [Str ''AFC'', Str ''NFC'', Str ''Unknown'']) (records df)"
    by (auto simp: list_ex_iff valid_conference_def)
  then show ?thesis by (simp add: validate_conference_def Let_def)
qed

lemma coerce_team_id_guarded:
  "coerce_team_id lib df
     = (if ''team_id'' \<in> set (columns df)
        then guarded ''team_id'' astype_int
               (dropna ''team_id'' (guarded ''team_id'' (to_numeric lib) df))
        else df)"
  by (simp add: coerce_team_id_def guarded_def columns_dropna columns_apply_col_present)

lemma all_fixed_coerce_team_id_other:
  assumes "all_fixed c P df" and "c \<noteq> ''team_id''"
  shows "all_fixed c P (coerce_team_id lib df)"
  using assms
  by (auto simp: coerce_team_id_guarded dropna_def
      intro!: all_fixed_guarded_other all_fixed_select_rows)

lemma all_fixed_coerce_team_id_same: "all_fixed ''team_id'' is_int (coerce_team_id lib df)"
proof (cases "''team_id'' \<in> set (columns df)")
  case False
  then show ?thesis by (simp add: coerce_team_id_guarded all_fixed_absent)
next
  case True
  have "all_fixed ''team_id'' numeric_cell (guarded ''team_id'' (to_numeric lib) df)"
    by (rule all_fixed_guarded_same) (rule numeric_value(1))
  then have "all_fixed ''team_id'' (\<lambda>v. numeric_cell v \<and> v \<noteq> Null)
      (dropna ''team_id'' (guarded ''team_id'' (to_numeric lib) df))"
    by (rule all_fixed_dropna)
  then have "all_fixed ''team_id'' is_int
      (guarded ''team_id'' astype_int
         (dropna ''team_id'' (guarded ''team_id'' (to_numeric lib) df)))"
    by (rule all_fixed_guarded_again) (simp add: team_id_value(1))
  with True show ?thesis by (simp add: coerce_team_id_guarded)
qed

lemma coerce_team_id_id:
  assumes "all_fixed ''team_id'' is_int df"
  shows "coerce_team_id lib df = df"
proof (cases "''team_id'' \<in> set (columns df)")
  case False
  then show ?thesis by (simp add: coerce_team_id_guarded)
next
  case True
  have 1: "guarded ''team_id'' (to_numeric lib) df = df"
    using assms by (rule guarded_id) (rule team_id_value(2))
  have 2: "dropna ''team_id'' df = df"
    using assms True by (rule dropna_id) (rule team_id_value(4))
  have 3: "guarded ''team_id'' astype_int df = df"
    using assms by (rule guarded_id) (rule team_id_value(3))
  from True show ?thesis by (simp add: coerce_team_id_guarded 1 2 3)
qed

lemma columns_dedup_teams: "columns (dedup_teams df) = columns df"
  by (simp add: dedup_teams_def columns_drop_duplicates split: option.splits)

lemma columns_coerce_team_id: "columns (coerce_team_id lib df) = columns df"
  by (simp add: coerce_team_id_guarded columns_guarded columns_dropna)

text \<open>The table before the empty check is applied: the six steps of the cleaner.\<close>

lemma clean_teams_data_nonempty:
  "\<not> df_empty df \<Longrightarrow>
     clean_teams_data lib df
       = coerce_team_id lib (validate_conference
           (fold (strip_text lib)
              [''name'', ''city'', ''abbreviation'', ''conference'', ''division'']
              (fold fill_unknown [''city'', ''conference'', ''division'']
                 (rename_columns team_column_mapping (dedup_teams df)))))"
  by (simp add: clean_teams_data_def Let_def)

lemma columns_clean_teams_data:
  assumes "\<not> df_empty df"
  shows "columns (clean_teams_data lib df) = map (rename_label team_column_mapping) (columns df)"
  unfolding clean_teams_data_nonempty[OF assms] step_guarded fold_simps
  by (simp add: columns_coerce_team_id columns_validate_conference columns_guarded
      columns_rename_columns' columns_dedup_teams)

lemma clean_teams_data_fixed:
  assumes "\<not> df_empty df"
  shows "all_fixed ''name'' is_stripped (clean_teams_data lib df)"
    "all_fixed ''city'' is_stripped (clean_teams_data lib df)"
    "all_fixed ''abbreviation'' is_stripped (clean_teams_data lib df)"
    "all_fixed ''division'' is_stripped (clean_teams_data lib df)"
    "all_fixed ''conference'' valid_conference (clean_teams_data lib df)"
    "all_fixed ''team_id'' is_int (clean_teams_data lib df)"
  unfolding clean_teams_data_nonempty[OF assms] step_guarded fold_simps
  by (intro all_fixed_coerce_team_id_other all_fixed_coerce_team_id_same
      all_fixed_validate_other all_fixed_validate_same[where Q = is_stripped]
      all_fixed_guarded_other all_fixed_guarded_same text_value; simp)+

lemma clean_teams_data_fixpoint:
  assumes "''team_id'' \<in> set (columns (clean_teams_data lib df)) \<Longrightarrow>
           distinct (map (\<lambda>r. cell_at r ''team_id'') (records (clean_teams_data lib df)))"
  shows "clean_teams_data lib (clean_teams_data lib df)
     = (if records (clean_teams_data lib df) = [] then empty_frame
        else clean_teams_data lib df)"
proof (cases "df_empty df")
  case True
  then show ?thesis
    by (simp add: clean_teams_data_def empty_frame_def df_empty_def)
next
  case ne: False
  let ?out = "clean_teams_data lib df"
  have cols: "columns ?out = map (rename_label team_column_mapping) (columns df)"
    using ne by (rule columns_clean_teams_data)
  note fixed = clean_teams_data_fixed[OF ne, of lib]
  show ?thesis
  proof (cases "records ?out = []")
    case True
    then show ?thesis by (simp add: clean_teams_data_def[of lib ?out] df_empty_def)
  next
    case False
    from ne have "columns df \<noteq> []" by (simp add: df_empty_def)
    with cols False have ne': "\<not> df_empty ?out" by (simp add: df_empty_def)
    have no_old: "set (columns ?out) \<inter> set (map fst team_column_mapping) = {}"
      unfolding cols using team_renamed_no_old_name by auto
    then have absent: "''TeamID'' \<notin> set (columns ?out)" "''Key'' \<notin> set (columns ?out)"
      by (auto simp: team_column_mapping_def)
    have 0: "dedup_teams ?out = ?out"
    proof (cases "''team_id'' \<in> set (columns ?out)")
      case True
      with fixed(6) have "\<forall>r\<in>set (records ?out). is_int (cell_at r ''team_id'')"
        by (auto simp: all_fixed_def list_all_iff)
      then have "\<forall>r\<in>set (records ?out).
          cell_at r ''team_id'' = key_cell (map dup_key (cells_at r ''team_id''))"
        by (simp add: key_cell_cells_at team_id_value(5))
      then have "map (\<lambda>r. cell_at r ''team_id'') (records ?out)
          = map key_cell (key_col ''team_id'' ?out)"
        by (simp add: key_col_def)
      with assms[OF True] have "distinct (map key_cell (key_col ''team_id'' ?out))" by simp
      then have "distinct (key_col ''team_id'' ?out)" by (simp add: distinct_map)
      then have "drop_duplicates ''team_id'' ?out = ?out" by (rule drop_duplicates_id)
      with True absent show ?thesis by (simp add: dedup_teams_def id_columns_def)
    next
      case False
      with absent show ?thesis by (simp add: dedup_teams_def id_columns_def)
    qed
    have 1: "rename_columns team_column_mapping ?out = ?out"
      using no_old by (rule rename_columns_id)
    have conf: "all_fixed ''conference'' is_stripped ?out"
      using fixed(5) by (rule all_fixed_weaken) (rule valid_conference_stripped)
    have 2: "fill_unknown ''city'' ?out = ?out" "fill_unknown ''conference'' ?out = ?out"
      "fill_unknown ''division'' ?out = ?out"
      unfolding step_guarded
      by (rule guarded_id[OF fixed(2)], erule text_value(3),
          rule guarded_id[OF conf], erule text_value(3),
          rule guarded_id[OF fixed(4)], erule text_value(3))
    have 3: "strip_text lib ''name'' ?out = ?out" "strip_text lib ''city'' ?out = ?out"
      "strip_text lib ''abbreviation'' ?out = ?out" "strip_text lib ''conference'' ?out = ?out"
      "strip_text lib ''division'' ?out = ?out"
      unfolding step_guarded
      by (rule guarded_id[OF fixed(1)], erule text_value(2),
          rule guarded_id[OF fixed(2)], erule text_value(2),
          rule guarded_id[OF fixed(3)], erule text_value(2),
          rule guarded_id[OF conf], erule text_value(2),
          rule guarded_id[OF fixed(4)], erule text_value(2))
    have 4: "validate_conference ?out = ?out"
      using fixed(5) by (rule validate_conference_id)
    have 5: "coerce_team_id lib ?out = ?out"
      using fixed(6) by (rule coerce_team_id_id)
    from ne' False show ?thesis
      by (simp add: clean_teams_data_def[of lib ?out] Let_def 0 1 2 3 4 5)
  qed
qed

text \<open>
  Claim C6, as the code has it. Applying the event cleaner to its own output returns that
  output when it still has rows, and the empty table without columns when it has none
  (the cleaner's first check returns \<open>pd.DataFrame()\<close> for a table without rows). The
  same holds for the entity cleaner when the identifiers of its output are pairwise
  distinct. In both cases no further row is dropped and no column renamed.
\<close>

theorem cleaners_idempotent_while_rows_remain:
  "(let out = clean_games_data lib games_df
    in clean_games_data lib out = (if records out = [] then empty_frame else out))
   \<and> (let out = clean_teams_data lib teams_df
      in (''team_id'' \<in> set (columns out) \<longrightarrow>
            distinct (map (\<lambda>r. cell_at r ''team_id'') (records out)))
         \<longrightarrow> clean_teams_data lib out = (if records out = [] then empty_frame else out))"
  unfolding Let_def
  using clean_games_data_fixpoint[of lib games_df] clean_teams_data_fixpoint[of lib teams_df]
  by blast

text \<open>
  The claim as stated fails: the cleaned form of \<open>self_play_only\<close> has the eight
  columns and no row, and cleaning it again gives the table without columns.
\<close>

theorem empty_output_counterexample:
  "clean_games_data example_lib self_play_only = \<lparr>columns = game_columns, records = []\<rparr>
   \<and> clean_games_data example_lib (clean_games_data example_lib self_play_only) = empty_frame
   \<and> clean_games_data example_lib (clean_games_data example_lib self_play_only)
       \<noteq> clean_games_data example_lib self_play_only"
  by code_simp

lemma raw_teams_cleaned:
  "clean_teams_data example_lib raw_teams
     = \<lparr>columns = [''team_id'', ''name'', ''city'', ''abbreviation'', ''conference'', ''division''],
        records =
          [[(''team_id'', Num 1), (''name'', Str ''Chiefs''), (''city'', Str ''Unknown''),
            (''abbreviation'', Str ''KC''), (''conference'', Str ''AFC''),
            (''division'', Str ''West'')],
           [(''team_id'', Num 2), (''name'', Str ''Raiders''), (''city'', Str ''Las Vegas''),
            (''abbreviation'', Str ''LV''), (''conference'', Str ''Unknown''),
            (''division'', Str ''Unknown'')]]\<rparr>"
  by code_simp

text \<open>
  \<open>raw_games\<close> and \<open>raw_teams\<close> are cleaned to two rows each, the teams with the
  identifiers 1 and 2, and cleaning the results again changes nothing.
\<close>

theorem cleaners_idempotent_while_rows_remain_witness:
  "records (clean_games_data example_lib raw_games) \<noteq> []
   \<and> clean_games_data example_lib (clean_games_data example_lib raw_games)
       = clean_games_data example_lib raw_games
   \<and> ''team_id'' \<in> set (columns (clean_teams_data example_lib raw_teams))
   \<and> distinct (map (\<lambda>r. cell_at r ''team_id'') (records (clean_teams_data example_lib raw_teams)))
   \<and> records (clean_teams_data example_lib raw_teams) \<noteq> []
   \<and> clean_teams_data example_lib (clean_teams_data example_lib raw_teams)
       = clean_teams_data example_lib raw_teams"
proof -
  note C6 = cleaners_idempotent_while_rows_remain[of example_lib raw_games raw_teams,
      unfolded Let_def]
  have g: "records (clean_games_data example_lib raw_games) \<noteq> []"
    by (simp add: raw_games_cleaned)
  have t: "''team_id'' \<in> set (columns (clean_teams_data example_lib raw_teams))"
    "distinct (map (\<lambda>r. cell_at r ''team_id'') (records (clean_teams_data example_lib raw_teams)))"
    "records (clean_teams_data example_lib raw_teams) \<noteq> []"
    by (simp_all add: raw_teams_cleaned cell_at_def)
  from C6 g have 1: "clean_games_data example_lib (clean_games_data example_lib raw_games)
       = clean_games_data example_lib raw_games" by simp
  from C6 t have 2: "clean_teams_data example_lib (clean_teams_data example_lib raw_teams)
       = clean_teams_data example_lib raw_teams" by simp
  from g t 1 2 show ?thesis by blast
qed

lemma clean_games_data_distinct_ids:
  assumes "\<not> df_empty df" and "''game_id'' \<in> set (columns (clean_games_data lib df))"
  shows "distinct (key_col ''game_id'' (clean_games_data lib df))"
proof -
  from assms have "''game_id'' \<in> set (columns (standardize_games lib df))"
    by (simp add: columns_clean_games_data)
  then have "distinct (key_col ''game_id'' (standardize_games lib df))"
    by (rule standardize_games_distinct)
  then show ?thesis
    unfolding clean_games_data_nonempty[OF assms(1)] drop_invalid_weeks_def
      drop_self_play_def Let_def
    by (auto intro!: distinct_key_col_select_rows)
qed

text \<open>
  Claim C5 fails for the entity cleaner. It removes duplicates of the raw \<open>TeamID\<close> cells
  and only afterwards coerces them to integers: the identifiers 7 and 7.5, and the texts
  \<open>7\<close> and \<open>7.0\<close>, are different raw cells and the same integer 7, so the cleaned table
  holds the identifier 7 twice. Cleaning that table again drops the second row. (For the
  event cleaner the identifiers of the output are pairwise distinct:
  \<open>clean_games_data_distinct_ids\<close>.)
\<close>

theorem duplicate_team_id_after_coercion:
  "clean_teams_data example_lib fractional_ids
     = \<lparr>columns = [''team_id'', ''name''],
        records = [[(''team_id'', Num 7), (''name'', Str ''Chiefs'')],
                   [(''team_id'', Num 7), (''name'', Str ''Raiders'')]]\<rparr>
   \<and> clean_teams_data example_lib text_ids
     = \<lparr>columns = [''team_id'', ''name''],
        records = [[(''team_id'', Num 7), (''name'', Str ''Chiefs'')],
                   [(''team_id'', Num 7), (''name'', Str ''Raiders'')]]\<rparr>
   \<and> length (records (clean_teams_data example_lib
                         (clean_teams_data example_lib fractional_ids))) = 1"
  by code_simp

section \<open>Tables with distinct labels\<close>

text \<open>
  The steps of the entity cleaner keep a table well formed: pairwise distinct labels, and
  rows labelled by the columns.
\<close>

lemma wf_frame_rename_columns:
  assumes "wf_frame df" and "distinct (map (rename_label m) (columns df))"
  shows "wf_frame (rename_columns m df)"
proof -
  let ?rm = "filter (\<lambda>(old_col, new_col). old_col \<in> set (columns df)) m"
  have eq: "map (rename_label ?rm) (columns df) = map (rename_label m) (columns df)"
    by (simp add: rename_label_filter)
  have rows: "map fst (map (\<lambda>(k, x). (rename_label ?rm k, x)) r)
      = map (rename_label ?rm) (columns df)"
    if "r \<in> set (records df)" for r
  proof -
    from that assms(1) have "map fst r = columns df"
      by (simp add: wf_frame_def list_all_iff)
    then have "map (rename_label ?rm) (map fst r) = map (rename_label ?rm) (columns df)"
      by simp
    then show ?thesis by (simp add: comp_def split_def)
  qed
  have cols: "distinct (columns (rename_columns m df))"
    using assms(2) by (simp only: columns_rename_columns eq)
  have "list_all (\<lambda>r. map fst r = columns (rename_columns m df)) (records (rename_columns m df))"
    using rows by (simp add: rename_columns_def Let_def list_all_iff)
  with cols show ?thesis by (simp only: wf_frame_def simp_thms)
qed

lemma wf_frame_assign_present:
  assumes "wf_frame df" and "c \<in> set (columns df)"
  shows "wf_frame (assign c f df)"
  using assms by (auto simp: wf_frame_def assign_def list_all_iff keys_set_cell)

lemma wf_frame_guarded: "wf_frame df \<Longrightarrow> wf_frame (guarded c g df)"
  by (simp add: guarded_def apply_col_def wf_frame_assign_present)

lemma wf_frame_fold_guarded:
  "wf_frame df \<Longrightarrow> wf_frame (fold (\<lambda>c. guarded c (g c)) cs df)"
  by (induction cs arbitrary: df) (simp_all add: wf_frame_guarded)

lemma wf_frame_validate_conference: "wf_frame df \<Longrightarrow> wf_frame (validate_conference df)"
  by (simp add: validate_conference_def Let_def wf_frame_assign_present)

text \<open>
  Claim C2, as the code has it. Take a raw teams table that is well formed and not empty,
  has none of the columns \<open>TeamID\<close>, \<open>team_id\<close>, \<open>Key\<close>, and whose labels stay
  pairwise distinct under the renaming. The call raises nothing: the cleaner skips the
  deduplication and returns a well-formed table with a row for every input row, under the
  renamed columns. The result is not empty.
\<close>

theorem no_id_column_keeps_rows:
  assumes "wf_frame teams_df" and "\<not> df_empty teams_df"
    and "set (columns teams_df) \<inter> set id_columns = {}"
    and "distinct (map (rename_label team_column_mapping) (columns teams_df))"
  shows "call_clean_teams_data lib teams_df = Inr (clean_teams_data lib teams_df)
       \<and> length (records (clean_teams_data lib teams_df)) = length (records teams_df)
       \<and> columns (clean_teams_data lib teams_df)
           = map (rename_label team_column_mapping) (columns teams_df)
       \<and> \<not> df_empty (clean_teams_data lib teams_df)
       \<and> wf_frame (clean_teams_data lib teams_df)"
proof -
  let ?d1 = "rename_columns team_column_mapping teams_df"
  let ?d2 = "fold fill_unknown [''city'', ''conference'', ''division''] ?d1"
  let ?d3 = "fold (strip_text lib)
               [''name'', ''city'', ''abbreviation'', ''conference'', ''division''] ?d2"
  let ?d4 = "validate_conference ?d3"
  have call: "call_clean_teams_data lib teams_df = Inr (clean_teams_data lib teams_df)"
    using assms(4) by (simp add: call_clean_teams_data_def clean_teams_data_raises_distinct)
  have c4: "columns ?d4 = map (rename_label team_column_mapping) (columns teams_df)"
    by (simp only: columns_validate_conference columns_fold_same[of "strip_text lib", OF columns_strip_text]
        columns_fold_same[of fill_unknown, OF columns_fill_unknown] columns_rename_columns')
  have l4: "length (records ?d4) = length (records teams_df)"
    by (simp only: length_validate_conference length_fold_same[of "strip_text lib", OF length_strip_text]
        length_fold_same[of fill_unknown, OF length_fill_unknown] length_rename_columns)
  have "wf_frame ?d1"
    using assms(1,4) by (rule wf_frame_rename_columns)
  then have w4: "wf_frame ?d4"
    unfolding step_guarded
    by (intro wf_frame_validate_conference wf_frame_fold_guarded)
  have "''team_id'' \<notin> set (columns ?d4)"
  proof
    assume "''team_id'' \<in> set (columns ?d4)"
    then obtain c where "c \<in> set (columns teams_df)"
      and "rename_label team_column_mapping c = ''team_id''"
      unfolding c4 by auto
    with team_id_origin[of c] assms(3) show False
      by (auto simp: id_columns_def)
  qed
  then have "coerce_team_id lib ?d4 = ?d4" by (simp add: coerce_team_id_def)
  with assms(2,3) have out: "clean_teams_data lib teams_df = ?d4"
    by (simp add: clean_teams_data_def Let_def dedup_teams_none)
  from assms(2) have "records teams_df \<noteq> []" "columns teams_df \<noteq> []"
    by (auto simp: df_empty_def)
  with call c4 l4 w4 out show ?thesis
    by (auto simp: df_empty_def)
qed

text \<open>
  The claim as stated fails: \<open>names_only\<close> is not empty and has no identifier column,
  and the call returns its one row, under the column \<open>name\<close>.
\<close>

theorem no_id_column_counterexample:
  "\<not> df_empty names_only
   \<and> set (columns names_only) \<inter> set id_columns = {}
   \<and> call_clean_teams_data example_lib names_only
       = Inr \<lparr>columns = [''name''], records = [[(''name'', Str ''Chiefs'')]]\<rparr>
   \<and> \<not> df_empty \<lparr>columns = [''name''], records = [[(''name'', Str ''Chiefs'')]]\<rparr>"
  by code_simp

theorem no_id_column_keeps_rows_witness:
  "wf_frame names_only \<and> \<not> df_empty names_only
   \<and> set (columns names_only) \<inter> set id_columns = {}
   \<and> distinct (map (rename_label team_column_mapping) (columns names_only))
   \<and> call_clean_teams_data example_lib names_only
       = Inr (clean_teams_data example_lib names_only)
   \<and> length (records (clean_teams_data example_lib names_only)) = 1
   \<and> columns (clean_teams_data example_lib names_only) = [''name'']
   \<and> wf_frame (clean_teams_data example_lib names_only)"
proof -
  have h: "wf_frame names_only" "\<not> df_empty names_only"
    "set (columns names_only) \<inter> set id_columns = {}"
    "distinct (map (rename_label team_column_mapping) (columns names_only))"
    by (simp_all add: names_only_def df_empty_def id_columns_def wf_frame_def
        rename_label_def team_column_mapping_def)
  from no_id_column_keeps_rows[OF h, of example_lib] h show ?thesis
    by (simp add: names_only_def rename_label_def team_column_mapping_def)
qed

section \<open>Properties of the team aggregator\<close>

subsection \<open>The merge of the wins\<close>

text \<open>
  The wins tables carry their key under the name of the grouping column, so the merge on
  \<open>team_id\<close> raises for every table of completed games, also when no team has a win.
\<close>

lemma merge_home_wins_raises:
  "merge_wins stats (home_wins_table completed) ''team_id'' = Inl (KeyError ''team_id'')"
  by (simp add: merge_wins_def home_wins_table_def Let_def)

lemma merge_away_wins_raises:
  "merge_wins stats (away_wins_table completed) ''team_id'' = Inl (KeyError ''team_id'')"
  by (simp add: merge_wins_def away_wins_table_def Let_def)

text \<open>
  Hence the function has two results only: the table without rows, when the input has no
  completed game, and \<open>KeyError('team_id')\<close> otherwise. No call returns a team row.
\<close>

lemma create_team_aggregations_result:
  "create_team_aggregations has_is_completed games_df =
     (if completed_games has_is_completed games_df = [] then Inr []
      else Inl (KeyError ''team_id''))"
proof (cases "games_df = []")
  case True
  then show ?thesis by (simp add: create_team_aggregations_def completed_games_def)
next
  case False
  then show ?thesis
    by (simp add: create_team_aggregations_def Let_def merge_home_wins_raises)
qed

lemma create_team_aggregations_no_row:
  "create_team_aggregations has_is_completed games_df = Inr table \<Longrightarrow> table = []"
  by (simp add: create_team_aggregations_result split: if_splits)

text \<open>
  Claim C1 describes the ranking of lines 374 and 375, which no call reaches. On
  \<open>two_even_games\<close>, where teams 1 and 3 have the same record and the claim puts them at
  consecutive ranks in input order, the function raises \<open>KeyError('team_id')\<close> at line
  323 and returns no table.
\<close>

theorem ranking_not_reached:
  "create_team_aggregations True two_even_games = Inl (KeyError ''team_id'')"
  by (simp add: create_team_aggregations_result completed_games_def two_even_games_def
      final_game_def)

text \<open>
  Claim C4 describes the derived columns of lines 351 to 367, which no call reaches. On
  \<open>sixteen_games\<close>, where team 1 has 10 home games averaging 24 and 6 away games
  averaging 20 and the claim gives it an average of 22.5, the function raises
  \<open>KeyError('team_id')\<close> at line 323 and returns no table.
\<close>

theorem averages_not_reached:
  "create_team_aggregations True sixteen_games = Inl (KeyError ''team_id'')"
  by (simp add: create_team_aggregations_result completed_games_def sixteen_games_def
      final_game_def)

text \<open>
  Claim C9 describes the counts of games and wins of a tie. On the table whose one
  completed game ends 17 to 17, where the claim gives both teams one game and no win, the
  function raises \<open>KeyError('team_id')\<close> at line 323 and returns no table: the wins
  table has no row, and the merge fails on its column name all the same.
\<close>

theorem tie_not_counted:
  "wins_rows (home_wins_table [tied_game]) = []
   \<and> create_team_aggregations True [tied_game] = Inl (KeyError ''team_id'')"
  by (simp add: create_team_aggregations_result completed_games_def tied_game_def
      final_game_def home_wins_table_def group_keys_def List.map_filter_simps)

subsection \<open>The lines behind the merges\<close>

text \<open>
  What lines 350 to 375 compute on the rows they are given. No call of the function
  gets there; the facts below are about these lines alone.
\<close>

lemma overall_stats_formulas:
  "total_games (overall_stats m) = home_games m + away_games m"
  "total_wins (overall_stats m) = home_wins m + away_wins m"
  "win_percentage (overall_stats m)
     = (home_wins m + away_wins m) / replace_0_1 (home_games m + away_games m)"
  "avg_points_scored (overall_stats m)
     = (avg_points_scored_home m * home_games m + avg_points_scored_away m * away_games m)
         / replace_0_1 (home_games m + away_games m)"
  by (simp_all add: overall_stats_def Let_def merged_row.defs stats_row.defs)

lemma sort_values_descending:
  assumes "i < j" "j < length rows"
  shows "win_percentage (sort_values rows ! j) < win_percentage (sort_values rows ! i)
     \<or> (win_percentage (sort_values rows ! j) = win_percentage (sort_values rows ! i)
        \<and> net_points (sort_values rows ! j) \<le> net_points (sort_values rows ! i))"
proof -
  let ?f = "\<lambda>r. (- win_percentage r, - net_points r)"
  have "sorted (map ?f (sort_values rows))"
    unfolding sort_values_def by (rule sorted_sort_key)
  moreover have "j < length (map ?f (sort_values rows))"
    using assms by (simp add: sort_values_def)
  ultimately have "map ?f (sort_values rows) ! i \<le> map ?f (sort_values rows) ! j"
    using assms(1) by (simp add: sorted_iff_nth_mono)
  then have "?f (sort_values rows ! i) \<le> ?f (sort_values rows ! j)"
    using assms by (simp add: sort_values_def)
  then show ?thesis by (auto simp: less_eq_prod_def)
qed

lemma sort_values_stable:
  "filter (\<lambda>r. win_percentage r = w \<and> net_points r = n) (sort_values rows)
     = filter (\<lambda>r. win_percentage r = w \<and> net_points r = n) rows"
proof -
  have "filter (\<lambda>r. (- win_percentage r, - net_points r) = (- w, - n)) (sort_values rows)
      = filter (\<lambda>r. (- win_percentage r, - net_points r) = (- w, - n)) rows"
    unfolding sort_values_def by (rule sort_key_stable)
  then show ?thesis by simp
qed

lemma power_ranking_position:
  "i < length rows \<Longrightarrow> power_ranking (assign_power_ranking rows ! i) = i + 1"
  by (simp add: assign_power_ranking_def stats_row.defs ranked_row.defs del: upt_Suc)

section \<open>Remarks on the domain of the model\<close>

text \<open>The example tables, raw and cleaned, have distinct labels and rows that carry them.\<close>

lemma example_frames_wf:
  "wf_frame raw_games" "wf_frame raw_teams" "wf_frame three_results" "wf_frame names_only"
  "wf_frame self_play_only" "wf_frame fractional_ids" "wf_frame text_ids"
  "wf_frame unparsed_games"
  "wf_frame (clean_games_data example_lib raw_games)"
  "wf_frame (clean_teams_data example_lib raw_teams)"
  by code_simp+

text \<open>
  A raw table that holds an upstream column name beside its canonical name: the call
  raises when a step converts the repeated column, and returns the table with the label
  repeated when no step does. With \<open>GameID\<close> beside \<open>game_id\<close> the deduplication
  compares both columns: of the three games the third repeats the first.
\<close>

lemma repeated_label_calls:
  "call_clean_teams_data example_lib name_twice = Inl AttributeError"
  "call_clean_teams_data example_lib team_id_twice = Inl TypeError"
  "call_clean_games_data example_lib home_score_twice = Inl TypeError"
  "call_clean_games_data example_lib game_id_twice
     = Inr \<lparr>columns = [''game_id'', ''game_id''],
            records = [[(''game_id'', Num 1), (''game_id'', Num 1)],
                       [(''game_id'', Num 1), (''game_id'', Num 2)]]\<rparr>"
  by code_simp+

end
